theory Spec2Isabelle
  imports Complex_Main "HOL-Library.Sublist"
begin

section \<open>Values exchanged with the host engine\<close>

text \<open>
  The connector class \<open>WebRTCBrowserPeerConnectionConnector\<close> owns one browser
  \<open>RTCPeerConnection\<close> and forwards to it. The browser objects are external, so their
  identities are plain numbers, a rejection of a host promise is an \<open>error\<close> value,
  and an \<open>await\<close> of a host promise is a result \<open>error + 'a\<close> (\<open>Inl\<close>: the promise
  rejected and the exception leaves the method).
\<close>

datatype error = DOMException string

type_synonym track = nat
type_synonym sender = nat
type_synonym callback = nat
type_synonym number = real

datatype description = Description (sd_type: string) (sd_sdp: string)

record RTCOfferOptions =
  iceRestart :: "bool option"

text \<open>
  Modelled from the spec: the SDK type \<open>IPeerConnectionOfferOptions\<close> is declared in
  \<open>@crewdle/web-sdk\<close>; the source reads only its optional flag \<open>handshakeRestart\<close>.
\<close>

record IPeerConnectionOfferOptions =
  handshakeRestart :: "bool option"

text \<open>
  Modelled from the spec: the SDK enum \<open>MediaStreamPriority\<close> is declared in
  \<open>@crewdle/web-sdk\<close>; the spec describes it as an enumerated low/medium/high value.
\<close>

datatype MediaStreamPriority = Low | Medium | High

datatype RTCPriorityType = very_low | low | medium | high

datatype RTCRtpTransceiverDirection = sendrecv | sendonly | recvonly | inactive | stopped

record RTCRtpTransceiver =
  tr_sender :: sender
  tr_track :: "track option"
  direction :: RTCRtpTransceiverDirection

record RTCRtpEncodingParameters =
  active :: bool
  scaleResolutionDownBy :: "number option"
  maxFramerate :: "number option"
  maxBitrate :: "number option"
  priority :: "RTCPriorityType option"

record RTCRtpSendParameters =
  transactionId :: string
  encodings :: "RTCRtpEncodingParameters list"

text \<open>
  An \<open>RTCStatsReport\<close> is a map-like collection iterated in insertion order: an
  association list of identifier and entry. An entry is opaque to the connector.
\<close>

type_synonym PeerConnectionStatsReport = string
type_synonym RTCStatsReport = "(string \<times> PeerConnectionStatsReport) list"

datatype host_call =
    SetRemoteDescription description
  | CreateAnswer
  | SetLocalDescription description
  | CreateOffer RTCOfferOptions
  | GetStats track
  | ReplaceTrack sender track
  | GetTransceivers
  | GetParameters sender
  | SetParameters sender RTCRtpSendParameters

text \<open>
  The listener installed by the \<open>onDataChannel\<close> setter is the arrow function that
  closes over the caller's callback.
\<close>

datatype datachannel_listener = Wrapper callback

section \<open>The host connection\<close>

text \<open>
  The part of the browser's \<open>RTCPeerConnection\<close> the connector reads or writes, and
  \<open>calls\<close>, the sequence of host calls made on it so far (oldest first).
\<close>

record RTCPeerConnection =
  iceServers :: "string list"
  remoteDescription :: "description option"
  localDescription :: "description option"
  onnegotiationneeded :: "callback option"
  onicecandidate :: "callback option"
  onconnectionstatechange :: "callback option"
  ondatachannel :: "datachannel_listener option"
  onicegatheringstatechange :: "callback option"
  oniceconnectionstatechange :: "callback option"
  ontrack :: "callback option"
  transceivers :: "RTCRtpTransceiver list"
  calls :: "host_call list"

text \<open>
  What the engine decides is not in the repository: it is a parameter. Every decision
  may depend on the connection as it stands at the call, except the statistics of a
  track, which are fixed for the duration of one collection. \<open>Some e\<close> in a
  \<open>reject\<close> field is a rejection with \<open>e\<close>; \<open>parametersOf\<close> and the inner option
  of \<open>statsOf\<close> are \<open>None\<close> for a falsy value.
\<close>

record engine =
  rejectRemote :: "description \<Rightarrow> RTCPeerConnection \<Rightarrow> error option"
  answerOf :: "RTCPeerConnection \<Rightarrow> error + description"
  rejectLocal :: "description \<Rightarrow> RTCPeerConnection \<Rightarrow> error option"
  offerOf :: "RTCOfferOptions \<Rightarrow> RTCPeerConnection \<Rightarrow> error + description"
  statsOf :: "track \<Rightarrow> error + RTCStatsReport option"
  rejectReplace :: "sender \<Rightarrow> track \<Rightarrow> RTCPeerConnection \<Rightarrow> error option"
  parametersOf :: "sender \<Rightarrow> RTCPeerConnection \<Rightarrow> RTCRtpSendParameters option"
  rejectParameters :: "sender \<Rightarrow> RTCRtpSendParameters \<Rightarrow> RTCPeerConnection \<Rightarrow> error option"

definition logged :: "host_call \<Rightarrow> RTCPeerConnection \<Rightarrow> RTCPeerConnection" where
  "logged k c = c\<lparr>calls := calls c @ [k]\<rparr>"

text \<open>
  Host operations. A description call that resolves stores the description; one that
  rejects leaves the connection as it was (but for the record of the call).
\<close>

definition host_setRemoteDescription ::
  "engine \<Rightarrow> description \<Rightarrow> RTCPeerConnection \<Rightarrow> (error + unit) \<times> RTCPeerConnection" where
  "host_setRemoteDescription E d c =
     (case rejectRemote E d c of
        Some e \<Rightarrow> (Inl e, logged (SetRemoteDescription d) c)
      | None \<Rightarrow> (Inr (), (logged (SetRemoteDescription d) c)\<lparr>remoteDescription := Some d\<rparr>))"

definition host_createAnswer ::
  "engine \<Rightarrow> RTCPeerConnection \<Rightarrow> (error + description) \<times> RTCPeerConnection" where
  "host_createAnswer E c = (answerOf E c, logged CreateAnswer c)"

definition host_setLocalDescription ::
  "engine \<Rightarrow> description \<Rightarrow> RTCPeerConnection \<Rightarrow> (error + unit) \<times> RTCPeerConnection" where
  "host_setLocalDescription E d c =
     (case rejectLocal E d c of
        Some e \<Rightarrow> (Inl e, logged (SetLocalDescription d) c)
      | None \<Rightarrow> (Inr (), (logged (SetLocalDescription d) c)\<lparr>localDescription := Some d\<rparr>))"

definition host_createOffer ::
  "engine \<Rightarrow> RTCOfferOptions \<Rightarrow> RTCPeerConnection \<Rightarrow> (error + description) \<times> RTCPeerConnection" where
  "host_createOffer E opts c = (offerOf E opts c, logged (CreateOffer opts) c)"

definition host_getStats ::
  "engine \<Rightarrow> track \<Rightarrow> RTCPeerConnection \<Rightarrow> (error + RTCStatsReport option) \<times> RTCPeerConnection" where
  "host_getStats E t c = (statsOf E t, logged (GetStats t) c)"

text \<open>A track swap that resolves puts the track on the sender, in every transceiver that has it.\<close>

definition host_replaceTrack ::
  "engine \<Rightarrow> sender \<Rightarrow> track \<Rightarrow> RTCPeerConnection \<Rightarrow> (error + unit) \<times> RTCPeerConnection" where
  "host_replaceTrack E s t c =
     (case rejectReplace E s t c of
        Some e \<Rightarrow> (Inl e, logged (ReplaceTrack s t) c)
      | None \<Rightarrow> (Inr (), (logged (ReplaceTrack s t) c)
          \<lparr>transceivers := map (\<lambda>tr. if tr_sender tr = s then tr\<lparr>tr_track := Some t\<rparr> else tr)
             (transceivers c)\<rparr>))"

definition host_getTransceivers ::
  "RTCPeerConnection \<Rightarrow> RTCRtpTransceiver list \<times> RTCPeerConnection" where
  "host_getTransceivers c = (transceivers c, logged GetTransceivers c)"

definition host_getParameters ::
  "engine \<Rightarrow> sender \<Rightarrow> RTCPeerConnection \<Rightarrow> RTCRtpSendParameters option \<times> RTCPeerConnection" where
  "host_getParameters E s c = (parametersOf E s c, logged (GetParameters s) c)"

definition host_setParameters ::
  "engine \<Rightarrow> sender \<Rightarrow> RTCRtpSendParameters \<Rightarrow> RTCPeerConnection \<Rightarrow> (error + unit) \<times> RTCPeerConnection" where
  "host_setParameters E s p c =
     ((case rejectParameters E s p c of Some e \<Rightarrow> Inl e | None \<Rightarrow> Inr ()),
      logged (SetParameters s p) c)"

text \<open>
  A fresh host connection has no description, no listener and no transceiver; the
  engine invokes the listener of a slot, if there is one, when the slot's event fires.
\<close>

definition new_RTCPeerConnection :: "string list \<Rightarrow> RTCPeerConnection" where
  "new_RTCPeerConnection servers =
     \<lparr>iceServers = servers, remoteDescription = None, localDescription = None,
      onnegotiationneeded = None, onicecandidate = None, onconnectionstatechange = None,
      ondatachannel = None, onicegatheringstatechange = None,
      oniceconnectionstatechange = None, ontrack = None, transceivers = [], calls = []\<rparr>"

definition fire_negotiationneeded :: "RTCPeerConnection \<Rightarrow> callback list" where
  "fire_negotiationneeded c = (case onnegotiationneeded c of None \<Rightarrow> [] | Some h \<Rightarrow> [h])"

section \<open>The connector\<close>

subsection \<open>convertPriority\<close>

fun convertPriority :: "MediaStreamPriority \<Rightarrow> RTCPriorityType" where
  "convertPriority Low = low"
| "convertPriority High = high"
| "convertPriority _ = medium"

subsection \<open>createAnswer\<close>

definition createAnswer ::
  "engine \<Rightarrow> description \<Rightarrow> RTCPeerConnection \<Rightarrow> (error + description) \<times> RTCPeerConnection" where
  "createAnswer E offer c =
     (case host_setRemoteDescription E offer c of
        (Inl e, c1) \<Rightarrow> (Inl e, c1)
      | (Inr _, c1) \<Rightarrow>
          (case host_createAnswer E c1 of
             (Inl e, c2) \<Rightarrow> (Inl e, c2)
           | (Inr answer, c2) \<Rightarrow>
               (case host_setLocalDescription E answer c2 of
                  (Inl e, c3) \<Rightarrow> (Inl e, c3)
                | (Inr _, c3) \<Rightarrow> (Inr answer, c3))))"

subsection \<open>constructor, canAddCandidates\<close>

record IPeerConnectionConfiguration =
  handshakeServers :: "string list"

definition constructor :: "IPeerConnectionConfiguration \<Rightarrow> RTCPeerConnection" where
  "constructor config = new_RTCPeerConnection (handshakeServers config)"

definition canAddCandidates :: "RTCPeerConnection \<Rightarrow> bool" where
  "canAddCandidates c = (remoteDescription c \<noteq> None)"

subsection \<open>createOffer\<close>

definition createOffer ::
  "engine \<Rightarrow> IPeerConnectionOfferOptions option \<Rightarrow> RTCPeerConnection
     \<Rightarrow> (error + description) \<times> RTCPeerConnection" where
  "createOffer E options c =
     (let webRTCOptions = \<lparr>iceRestart = None\<rparr>;
          webRTCOptions =
            (if (case options of None \<Rightarrow> False | Some opts \<Rightarrow> handshakeRestart opts = Some True)
             then webRTCOptions\<lparr>iceRestart := Some True\<rparr> else webRTCOptions)
      in case host_createOffer E webRTCOptions c of
           (Inl e, c1) \<Rightarrow> (Inl e, c1)
         | (Inr offer, c1) \<Rightarrow>
             (case host_setLocalDescription E offer c1 of
                (Inl e, c2) \<Rightarrow> (Inl e, c2)
              | (Inr _, c2) \<Rightarrow> (Inr offer, c2)))"

subsection \<open>handleAnswer\<close>

definition handleAnswer ::
  "engine \<Rightarrow> description \<Rightarrow> callback \<Rightarrow> RTCPeerConnection \<Rightarrow> (error + unit) \<times> RTCPeerConnection" where
  "handleAnswer E answer negotiationHandler c =
     (case host_setRemoteDescription E answer c of
        (Inl e, c1) \<Rightarrow> (Inl e, c1)
      | (Inr _, c1) \<Rightarrow>
          (Inr (), if onnegotiationneeded c1 = None
                   then c1\<lparr>onnegotiationneeded := Some negotiationHandler\<rparr> else c1))"

subsection \<open>replaceTrack\<close>

definition replaceTrack ::
  "engine \<Rightarrow> track \<Rightarrow> sender \<Rightarrow> RTCPeerConnection \<Rightarrow> (error + unit) \<times> RTCPeerConnection" where
  "replaceTrack E track rtcSender c =
     (case host_replaceTrack E rtcSender track c of
        (Inl e, c1) \<Rightarrow> (Inl e, c1)
      | (Inr _, c1) \<Rightarrow>
          (case host_getTransceivers c1 of
             (trs, c2) \<Rightarrow>
               (Inr (), c2\<lparr>transceivers :=
                  map (\<lambda>transceiver.
                         if tr_sender transceiver = rtcSender
                         then transceiver\<lparr>direction := sendrecv\<rparr> else transceiver) trs\<rparr>)))"

subsection \<open>setEncodingParameters\<close>

text \<open>\<open>promise.catch(() => {})\<close>: a rejection becomes a fulfilment.\<close>

definition catch_ignore :: "error + unit \<Rightarrow> error + unit" where
  "catch_ignore p = (case p of Inl e \<Rightarrow> Inr () | Inr v \<Rightarrow> Inr v)"

text \<open>
  The method is synchronous: the first component is how the call itself completes
  (\<open>Inl\<close> would be an exception thrown to the caller), the second the promise it leaves
  behind, as it settles (\<open>None\<close>: there is none).
\<close>

definition setEncodingParameters ::
  "engine \<Rightarrow> sender \<Rightarrow> number \<Rightarrow> number \<Rightarrow> number \<Rightarrow> MediaStreamPriority \<Rightarrow> RTCPeerConnection
     \<Rightarrow> (error + unit) \<times> (error + unit) option \<times> RTCPeerConnection" where
  "setEncodingParameters E rtcSender scaleDown framerate bitrate prio c =
     (case host_getParameters E rtcSender c of
        (None, c1) \<Rightarrow> (Inr (), None, c1)
      | (Some parameters, c1) \<Rightarrow>
          (let parameters' = parameters\<lparr>encodings :=
                 map (\<lambda>encoding. encoding
                        \<lparr>scaleResolutionDownBy := Some scaleDown,
                         maxFramerate := Some framerate,
                         maxBitrate := Some bitrate,
                         priority := Some (convertPriority prio)\<rparr>) (encodings parameters)\<rparr>
           in case host_setParameters E rtcSender parameters' c1 of
                (settled, c2) \<Rightarrow> (Inr (), Some (catch_ignore settled), c2)))"

subsection \<open>convertStatsReport, collectReceiversStats, collectSendersStats\<close>

definition convertStatsReport :: "RTCStatsReport \<Rightarrow> PeerConnectionStatsReport list" where
  "convertStatsReport report = foldl (\<lambda>stats (key, val). stats @ [val]) [] report"

text \<open>
  The collector is the caller's function: the model records its invocations, oldest
  first, each with the batch and the stream identifier it was given. A \<open>Map\<close> is the
  list of its entries and a \<open>Set\<close> the list of its members, in iteration order.
\<close>

type_synonym batch = "PeerConnectionStatsReport list list"
type_synonym collected = "(batch \<times> string) list"

text \<open>The inner loop of \<open>collectReceiversStats\<close>, over the tracks of one stream.\<close>

fun receiverTracks ::
  "engine \<Rightarrow> track list \<Rightarrow> batch \<Rightarrow> RTCPeerConnection \<Rightarrow> (error + batch) \<times> RTCPeerConnection" where
  "receiverTracks E [] stats c = (Inr stats, c)"
| "receiverTracks E (track # tracks) stats c =
     (case host_getStats E track c of
        (Inl e, c1) \<Rightarrow> (Inl e, c1)
      | (Inr trackStats, c1) \<Rightarrow>
          (case trackStats of
             Some report \<Rightarrow> receiverTracks E tracks (stats @ [convertStatsReport report]) c1
           | None \<Rightarrow> receiverTracks E tracks stats c1))"

fun receiverStreams ::
  "engine \<Rightarrow> (string \<times> track list) list \<Rightarrow> collected \<Rightarrow> RTCPeerConnection
     \<Rightarrow> (error + unit) \<times> collected \<times> RTCPeerConnection" where
  "receiverStreams E [] out c = (Inr (), out, c)"
| "receiverStreams E ((streamId, tracks) # receivers) out c =
     (case receiverTracks E tracks [] c of
        (Inl e, c1) \<Rightarrow> (Inl e, out, c1)
      | (Inr stats, c1) \<Rightarrow>
          (if length stats = 0 then receiverStreams E receivers out c1
           else receiverStreams E receivers (out @ [(stats, streamId)]) c1))"

definition collectReceiversStats ::
  "engine \<Rightarrow> (string \<times> track list) list \<Rightarrow> RTCPeerConnection
     \<Rightarrow> (error + unit) \<times> collected \<times> RTCPeerConnection" where
  "collectReceiversStats E receivers c = receiverStreams E receivers [] c"

text \<open>
  Modelled from the spec: the SDK type \<open>IPeerConnectionSenderMap\<close> is declared in
  \<open>@crewdle/web-sdk\<close>; the spec describes it as an optional video and an optional audio
  pair of track and sender. The source tests the entry, its track and its sender for
  presence.
\<close>

record sender_entry =
  se_track :: "track option"
  se_sender :: "sender option"

record IPeerConnectionSenderMap =
  tracks_video :: "sender_entry option"
  tracks_audio :: "sender_entry option"

text \<open>\<open>entry?.track && entry?.sender\<close>, and the track then read.\<close>

fun qualifying :: "sender_entry option \<Rightarrow> track option" where
  "qualifying None = None"
| "qualifying (Some entry) =
     (case se_track entry of
        None \<Rightarrow> None
      | Some t \<Rightarrow> (case se_sender entry of None \<Rightarrow> None | Some s \<Rightarrow> Some t))"

definition senderEntry ::
  "engine \<Rightarrow> sender_entry option \<Rightarrow> batch \<Rightarrow> RTCPeerConnection \<Rightarrow> (error + batch) \<times> RTCPeerConnection" where
  "senderEntry E entry stats c =
     (case qualifying entry of
        None \<Rightarrow> (Inr stats, c)
      | Some t \<Rightarrow>
          (case host_getStats E t c of
             (Inl e, c1) \<Rightarrow> (Inl e, c1)
           | (Inr entryStats, c1) \<Rightarrow>
               (case entryStats of
                  Some report \<Rightarrow> (Inr (stats @ [convertStatsReport report]), c1)
                | None \<Rightarrow> (Inr stats, c1))))"

fun senderStreams ::
  "engine \<Rightarrow> (string \<times> IPeerConnectionSenderMap) list \<Rightarrow> collected \<Rightarrow> RTCPeerConnection
     \<Rightarrow> (error + unit) \<times> collected \<times> RTCPeerConnection" where
  "senderStreams E [] out c = (Inr (), out, c)"
| "senderStreams E ((streamId, stream) # senders) out c =
     (case senderEntry E (tracks_video stream) [] c of
        (Inl e, c1) \<Rightarrow> (Inl e, out, c1)
      | (Inr stats1, c1) \<Rightarrow>
          (case senderEntry E (tracks_audio stream) stats1 c1 of
             (Inl e, c2) \<Rightarrow> (Inl e, out, c2)
           | (Inr stats, c2) \<Rightarrow>
               (if length stats = 0 then senderStreams E senders out c2
                else senderStreams E senders (out @ [(stats, streamId)]) c2)))"

definition collectSendersStats ::
  "engine \<Rightarrow> (string \<times> IPeerConnectionSenderMap) list \<Rightarrow> RTCPeerConnection
     \<Rightarrow> (error + unit) \<times> collected \<times> RTCPeerConnection" where
  "collectSendersStats E senders c = senderStreams E senders [] c"

subsection \<open>Callback slots of the peer connection\<close>

definition set_onCandidate :: "callback option \<Rightarrow> RTCPeerConnection \<Rightarrow> RTCPeerConnection" where
  "set_onCandidate callback c = c\<lparr>onicecandidate := callback\<rparr>"

definition set_onConnectionStateChange :: "callback option \<Rightarrow> RTCPeerConnection \<Rightarrow> RTCPeerConnection" where
  "set_onConnectionStateChange callback c = c\<lparr>onconnectionstatechange := callback\<rparr>"

definition set_onDataChannel :: "callback option \<Rightarrow> RTCPeerConnection \<Rightarrow> RTCPeerConnection" where
  "set_onDataChannel callback c =
     (case callback of
        None \<Rightarrow> c\<lparr>ondatachannel := None\<rparr>
      | Some cb \<Rightarrow> c\<lparr>ondatachannel := Some (Wrapper cb)\<rparr>)"

definition set_onGatheringStateChange :: "callback option \<Rightarrow> RTCPeerConnection \<Rightarrow> RTCPeerConnection" where
  "set_onGatheringStateChange callback c = c\<lparr>onicegatheringstatechange := callback\<rparr>"

definition set_onHandshakeStateChange :: "callback option \<Rightarrow> RTCPeerConnection \<Rightarrow> RTCPeerConnection" where
  "set_onHandshakeStateChange callback c = c\<lparr>oniceconnectionstatechange := callback\<rparr>"

definition set_onTrack :: "callback option \<Rightarrow> RTCPeerConnection \<Rightarrow> RTCPeerConnection" where
  "set_onTrack callback c = c\<lparr>ontrack := callback\<rparr>"

subsection \<open>The data channel connector\<close>

text \<open>
  The host's \<open>RTCDataChannel\<close>, as far as its three listeners go, and the connector
  object \<open>createDataChannel\<close> builds around one: it holds the channel and nothing else.
\<close>

record RTCDataChannel =
  onbufferedamountlow :: "callback option"
  onclose :: "callback option"
  onmessage :: "callback option"

datatype IPeerConnectionDataChannelConnector = Connector nat

definition createDataChannel :: "nat \<Rightarrow> IPeerConnectionDataChannelConnector" where
  "createDataChannel dataChannel = Connector dataChannel"

definition set_onBufferedAmountLow :: "callback option \<Rightarrow> RTCDataChannel \<Rightarrow> RTCDataChannel" where
  "set_onBufferedAmountLow callback dataChannel = dataChannel\<lparr>onbufferedamountlow := callback\<rparr>"

definition set_onClose :: "callback option \<Rightarrow> RTCDataChannel \<Rightarrow> RTCDataChannel" where
  "set_onClose callback dataChannel = dataChannel\<lparr>onclose := callback\<rparr>"

definition set_onMessage :: "callback option \<Rightarrow> RTCDataChannel \<Rightarrow> RTCDataChannel" where
  "set_onMessage callback dataChannel = dataChannel\<lparr>onmessage := callback\<rparr>"

section \<open>Events and histories\<close>

text \<open>
  An invocation is the slot whose event fired, the callback the engine called and the
  argument it got: the host's event, or for a data channel event what the wrapper
  passes on.
\<close>

datatype argument = HostEvent nat | ChannelEvent IPeerConnectionDataChannelConnector

datatype pc_slot =
  OnCandidate | OnConnectionStateChange | OnDataChannel | OnGatheringStateChange
  | OnHandshakeStateChange | OnTrack

fun pc_set :: "pc_slot \<Rightarrow> callback option \<Rightarrow> RTCPeerConnection \<Rightarrow> RTCPeerConnection" where
  "pc_set OnCandidate = set_onCandidate"
| "pc_set OnConnectionStateChange = set_onConnectionStateChange"
| "pc_set OnDataChannel = set_onDataChannel"
| "pc_set OnGatheringStateChange = set_onGatheringStateChange"
| "pc_set OnHandshakeStateChange = set_onHandshakeStateChange"
| "pc_set OnTrack = set_onTrack"

definition plain :: "'s \<Rightarrow> nat \<Rightarrow> callback option \<Rightarrow> ('s \<times> callback \<times> argument) list" where
  "plain slot ev listener = (case listener of None \<Rightarrow> [] | Some cb \<Rightarrow> [(slot, cb, HostEvent ev)])"

text \<open>For a data channel event the number is the event's channel.\<close>

fun pc_fire :: "pc_slot \<Rightarrow> nat \<Rightarrow> RTCPeerConnection \<Rightarrow> (pc_slot \<times> callback \<times> argument) list" where
  "pc_fire OnCandidate ev c = plain OnCandidate ev (onicecandidate c)"
| "pc_fire OnConnectionStateChange ev c = plain OnConnectionStateChange ev (onconnectionstatechange c)"
| "pc_fire OnDataChannel ev c =
     (case ondatachannel c of
        None \<Rightarrow> []
      | Some (Wrapper cb) \<Rightarrow> [(OnDataChannel, cb, ChannelEvent (createDataChannel ev))])"
| "pc_fire OnGatheringStateChange ev c = plain OnGatheringStateChange ev (onicegatheringstatechange c)"
| "pc_fire OnHandshakeStateChange ev c = plain OnHandshakeStateChange ev (oniceconnectionstatechange c)"
| "pc_fire OnTrack ev c = plain OnTrack ev (ontrack c)"

datatype dc_slot = OnBufferedAmountLow | OnClose | OnMessage

fun dc_set :: "dc_slot \<Rightarrow> callback option \<Rightarrow> RTCDataChannel \<Rightarrow> RTCDataChannel" where
  "dc_set OnBufferedAmountLow = set_onBufferedAmountLow"
| "dc_set OnClose = set_onClose"
| "dc_set OnMessage = set_onMessage"

fun dc_fire :: "dc_slot \<Rightarrow> nat \<Rightarrow> RTCDataChannel \<Rightarrow> (dc_slot \<times> callback \<times> argument) list" where
  "dc_fire OnBufferedAmountLow ev d = plain OnBufferedAmountLow ev (onbufferedamountlow d)"
| "dc_fire OnClose ev d = plain OnClose ev (onclose d)"
| "dc_fire OnMessage ev d = plain OnMessage ev (onmessage d)"

text \<open>
  A history of one adapter: the caller sets slots, the engine fires events. The
  result is every invocation made, oldest first.
\<close>

datatype 's action = SetSlot 's "callback option" | FireEvent 's nat

fun invocations ::
  "('s \<Rightarrow> callback option \<Rightarrow> 'h \<Rightarrow> 'h) \<Rightarrow> ('s \<Rightarrow> nat \<Rightarrow> 'h \<Rightarrow> ('s \<times> callback \<times> argument) list)
     \<Rightarrow> 's action list \<Rightarrow> 'h \<Rightarrow> ('s \<times> callback \<times> argument) list" where
  "invocations setter fire [] h = []"
| "invocations setter fire (SetSlot s cb # acts) h = invocations setter fire acts (setter s cb h)"
| "invocations setter fire (FireEvent s ev # acts) h = fire s ev h @ invocations setter fire acts h"

text \<open>A history of connector calls on one peer connection, whatever each call's outcome.\<close>

datatype operation =
    CreateAnswerOp description
  | HandleAnswerOp description callback
  | CreateOfferOp "IPeerConnectionOfferOptions option"
  | ReplaceTrackOp track sender
  | SetEncodingParametersOp sender number number number MediaStreamPriority
  | CollectReceiversStatsOp "(string \<times> track list) list"
  | CollectSendersStatsOp "(string \<times> IPeerConnectionSenderMap) list"
  | SetCallbackOp pc_slot "callback option"

fun perform :: "engine \<Rightarrow> operation \<Rightarrow> RTCPeerConnection \<Rightarrow> RTCPeerConnection" where
  "perform E (CreateAnswerOp offer) c = snd (createAnswer E offer c)"
| "perform E (HandleAnswerOp answer h) c = snd (handleAnswer E answer h c)"
| "perform E (CreateOfferOp options) c = snd (createOffer E options c)"
| "perform E (ReplaceTrackOp t s) c = snd (replaceTrack E t s c)"
| "perform E (SetEncodingParametersOp s a b m p) c = snd (snd (setEncodingParameters E s a b m p c))"
| "perform E (CollectReceiversStatsOp receivers) c = snd (snd (collectReceiversStats E receivers c))"
| "perform E (CollectSendersStatsOp senders) c = snd (snd (collectSendersStats E senders c))"
| "perform E (SetCallbackOp s cb) c = pc_set s cb c"

text \<open>Whether the call committed a remote description: the engine accepted the one it was given.\<close>

fun commits :: "engine \<Rightarrow> operation \<Rightarrow> RTCPeerConnection \<Rightarrow> bool" where
  "commits E (CreateAnswerOp offer) c = (fst (host_setRemoteDescription E offer c) = Inr ())"
| "commits E (HandleAnswerOp answer h) c = (fst (host_setRemoteDescription E answer c) = Inr ())"
| "commits E _ c = False"

fun history :: "engine \<Rightarrow> operation list \<Rightarrow> RTCPeerConnection \<Rightarrow> RTCPeerConnection" where
  "history E [] c = c"
| "history E (op # ops) c = history E ops (perform E op c)"

fun committed :: "engine \<Rightarrow> operation list \<Rightarrow> RTCPeerConnection \<Rightarrow> bool" where
  "committed E [] c = False"
| "committed E (op # ops) c = (commits E op c \<or> committed E ops (perform E op c))"

section \<open>What a history should invoke\<close>

text \<open>
  Written from the description of a callback slot, not from the setters: an adapter is
  a table from slot to the one callback registered there, setting a slot overwrites its
  entry (with nothing, for \<open>null\<close>), and an event invokes the callback of its slot's
  entry, if any, with the slot's argument.
\<close>

fun expected ::
  "('s \<Rightarrow> nat \<Rightarrow> argument) \<Rightarrow> 's action list \<Rightarrow> ('s \<Rightarrow> callback option)
     \<Rightarrow> ('s \<times> callback \<times> argument) list" where
  "expected arg [] registered = []"
| "expected arg (SetSlot s cb # acts) registered = expected arg acts (registered(s := cb))"
| "expected arg (FireEvent s ev # acts) registered =
     (case registered s of None \<Rightarrow> [] | Some cb \<Rightarrow> [(s, cb, arg s ev)])
     @ expected arg acts registered"

fun pc_argument :: "pc_slot \<Rightarrow> nat \<Rightarrow> argument" where
  "pc_argument OnDataChannel ev = ChannelEvent (createDataChannel ev)"
| "pc_argument _ ev = HostEvent ev"

definition dc_argument :: "dc_slot \<Rightarrow> nat \<Rightarrow> argument" where
  "dc_argument s ev = HostEvent ev"

fun pc_registered :: "RTCPeerConnection \<Rightarrow> pc_slot \<Rightarrow> callback option" where
  "pc_registered c OnCandidate = onicecandidate c"
| "pc_registered c OnConnectionStateChange = onconnectionstatechange c"
| "pc_registered c OnDataChannel = (case ondatachannel c of None \<Rightarrow> None | Some (Wrapper cb) \<Rightarrow> Some cb)"
| "pc_registered c OnGatheringStateChange = onicegatheringstatechange c"
| "pc_registered c OnHandshakeStateChange = oniceconnectionstatechange c"
| "pc_registered c OnTrack = ontrack c"

fun dc_registered :: "RTCDataChannel \<Rightarrow> dc_slot \<Rightarrow> callback option" where
  "dc_registered d OnBufferedAmountLow = onbufferedamountlow d"
| "dc_registered d OnClose = onclose d"
| "dc_registered d OnMessage = onmessage d"

section \<open>What a collection should hand to the collector\<close>

text \<open>
  Written from the description of the collection, not from its loops: a track
  contributes its flattened report when the engine resolves with one, a stream's batch
  is what its tracks contribute in order, and the collection stops at the first track
  whose statistics the engine rejects.
\<close>

definition contribution :: "engine \<Rightarrow> track \<Rightarrow> batch" where
  "contribution E t =
     (case statsOf E t of
        Inl e \<Rightarrow> []
      | Inr None \<Rightarrow> []
      | Inr (Some report) \<Rightarrow> [map snd report])"

definition batchOf :: "engine \<Rightarrow> track list \<Rightarrow> batch" where
  "batchOf E tracks = concat (map (contribution E) tracks)"

fun firstError :: "engine \<Rightarrow> track list \<Rightarrow> error option" where
  "firstError E [] = None"
| "firstError E (t # ts) = (case statsOf E t of Inl e \<Rightarrow> Some e | Inr _ \<Rightarrow> firstError E ts)"

definition answered :: "engine \<Rightarrow> (string \<times> track list) list \<Rightarrow> (string \<times> track list) list" where
  "answered E streams = takeWhile (\<lambda>(streamId, tracks). firstError E tracks = None) streams"

definition handed :: "engine \<Rightarrow> (string \<times> track list) list \<Rightarrow> collected" where
  "handed E streams =
     map (\<lambda>(streamId, tracks). (batchOf E tracks, streamId))
       (filter (\<lambda>(streamId, tracks). batchOf E tracks \<noteq> []) streams)"

definition senderTracks :: "IPeerConnectionSenderMap \<Rightarrow> track list" where
  "senderTracks stream =
     (case qualifying (tracks_video stream) of None \<Rightarrow> [] | Some t \<Rightarrow> [t]) @
     (case qualifying (tracks_audio stream) of None \<Rightarrow> [] | Some t \<Rightarrow> [t])"

definition senderStreamTracks ::
  "(string \<times> IPeerConnectionSenderMap) list \<Rightarrow> (string \<times> track list) list" where
  "senderStreamTracks senders = map (\<lambda>(streamId, stream). (streamId, senderTracks stream)) senders"

section \<open>Concrete engines and inputs\<close>

definition offer0 :: description where
  "offer0 = Description ''offer'' ''v=0 remote''"

definition answer0 :: description where
  "answer0 = Description ''answer'' ''v=0 local''"

definition parameters0 :: RTCRtpSendParameters where
  "parameters0 =
     \<lparr>transactionId = ''tx1'',
      encodings =
        [\<lparr>active = True, scaleResolutionDownBy = None, maxFramerate = None,
          maxBitrate = None, priority = None\<rparr>,
         \<lparr>active = False, scaleResolutionDownBy = Some 4, maxFramerate = Some 15,
          maxBitrate = Some 100000, priority = Some very_low\<rparr>]\<rparr>"

text \<open>
  An engine that accepts every description: track 3 has no statistics (a falsy
  result), track 4 is unknown to it (a rejection), track 5 has a report with no entry,
  and only sender 1 has parameters.
\<close>

definition accepting :: engine where
  "accepting =
     \<lparr>rejectRemote = (\<lambda>d c. None),
      answerOf = (\<lambda>c. Inr answer0),
      rejectLocal = (\<lambda>d c. None),
      offerOf = (\<lambda>opts c. Inr (Description ''offer''
                   (if iceRestart opts = Some True then ''v=0 restart'' else ''v=0''))),
      statsOf = (\<lambda>t. if t = 3 then Inr None
                      else if t = 4 then Inl (DOMException ''InvalidAccessError'')
                      else if t = 5 then Inr (Some [])
                      else Inr (Some [(''id'', ''inbound-rtp''), (''tr'', ''transport'')])),
      rejectReplace = (\<lambda>s t c. None),
      parametersOf = (\<lambda>s c. if s = 1 then Some parameters0 else None),
      rejectParameters = (\<lambda>s p c. None)\<rparr>"

text \<open>An engine that rejects every description, track swap and parameter commit.\<close>

definition refusing :: engine where
  "refusing =
     \<lparr>rejectRemote = (\<lambda>d c. Some (DOMException ''InvalidStateError'')),
      answerOf = (\<lambda>c. Inl (DOMException ''InvalidStateError'')),
      rejectLocal = (\<lambda>d c. Some (DOMException ''InvalidStateError'')),
      offerOf = (\<lambda>opts c. Inl (DOMException ''InvalidStateError'')),
      statsOf = (\<lambda>t. Inl (DOMException ''InvalidAccessError'')),
      rejectReplace = (\<lambda>s t c. Some (DOMException ''InvalidModificationError'')),
      parametersOf = (\<lambda>s c. Some parameters0),
      rejectParameters = (\<lambda>s p c. Some (DOMException ''InvalidModificationError''))\<rparr>"

text \<open>An engine that accepts every description but one without session text.\<close>

definition strict :: engine where
  "strict = accepting\<lparr>rejectRemote :=
     (\<lambda>d c. if sd_sdp d = [] then Some (DOMException ''InvalidAccessError'') else None)\<rparr>"

definition malformed :: description where
  "malformed = Description ''answer'' []"

text \<open>An engine that accepts descriptions but fails to generate an answer.\<close>

definition answerless :: engine where
  "answerless = accepting\<lparr>answerOf := (\<lambda>c. Inl (DOMException ''OperationError''))\<rparr>"

definition connection0 :: RTCPeerConnection where
  "connection0 = constructor \<lparr>handshakeServers = [''stun:stun.example.org'']\<rparr>"

text \<open>A connection with a send-only, a receive-only and an unrelated transceiver.\<close>

definition connection1 :: RTCPeerConnection where
  "connection1 = connection0\<lparr>transceivers :=
     [\<lparr>tr_sender = 1, tr_track = Some 10, direction = sendonly\<rparr>,
      \<lparr>tr_sender = 2, tr_track = None, direction = recvonly\<rparr>,
      \<lparr>tr_sender = 1, tr_track = Some 10, direction = recvonly\<rparr>]\<rparr>"

definition channel0 :: RTCDataChannel where
  "channel0 = \<lparr>onbufferedamountlow = None, onclose = None, onmessage = None\<rparr>"

section \<open>Facts about the host operations and the loops\<close>

lemmas host_defs = host_setRemoteDescription_def host_createAnswer_def
  host_setLocalDescription_def host_createOffer_def host_getStats_def host_replaceTrack_def
  host_getTransceivers_def host_getParameters_def host_setParameters_def logged_def

lemmas fixture_defs = accepting_def refusing_def connection0_def constructor_def
  new_RTCPeerConnection_def offer0_def answer0_def

lemma convertStatsReport_foldl:
  "foldl (\<lambda>stats (key, val). stats @ [val]) acc report = acc @ map snd report"
  by (induction report arbitrary: acc) (auto split: prod.splits)

lemma convertStatsReport_eq: "convertStatsReport report = map snd report"
  by (simp add: convertStatsReport_def convertStatsReport_foldl)

lemma receiverTracks_result:
  "fst (receiverTracks E tracks stats c) =
     (case firstError E tracks of Some e \<Rightarrow> Inl e | None \<Rightarrow> Inr (stats @ batchOf E tracks))"
  by (induction tracks arbitrary: stats c)
     (auto simp: host_getStats_def batchOf_def contribution_def convertStatsReport_eq
           split: sum.splits option.splits)

lemma firstError_append:
  "firstError E (xs @ ys) = (case firstError E xs of Some e \<Rightarrow> Some e | None \<Rightarrow> firstError E ys)"
  by (induction xs) (auto split: sum.splits)

lemma receiverStreams_collected:
  "fst (snd (receiverStreams E streams out c)) = out @ handed E (answered E streams)"
proof (induction streams arbitrary: out c)
  case Nil
  show ?case by (simp add: handed_def answered_def)
next
  case (Cons a streams)
  obtain streamId tracks where a: "a = (streamId, tracks)" by (cases a)
  obtain x c1 where rt: "receiverTracks E tracks [] c = (x, c1)"
    by (cases "receiverTracks E tracks [] c")
  from receiverTracks_result [of E tracks "[]" c] rt
  have x: "x = (case firstError E tracks of Some e \<Rightarrow> Inl e | None \<Rightarrow> Inr (batchOf E tracks))"
    by (simp split: option.splits)
  show ?case
  proof (cases "firstError E tracks")
    case (Some e)
    with a rt x show ?thesis by (simp add: handed_def answered_def)
  next
    case None
    with a rt x Cons.IH show ?thesis by (simp add: handed_def answered_def)
  qed
qed

lemma receiverStreams_outcome:
  "fst (receiverStreams E streams out c) =
     (case firstError E (concat (map snd streams)) of Some e \<Rightarrow> Inl e | None \<Rightarrow> Inr ())"
proof (induction streams arbitrary: out c)
  case Nil
  show ?case by simp
next
  case (Cons a streams)
  obtain streamId tracks where a: "a = (streamId, tracks)" by (cases a)
  obtain x c1 where rt: "receiverTracks E tracks [] c = (x, c1)"
    by (cases "receiverTracks E tracks [] c")
  from receiverTracks_result [of E tracks "[]" c] rt
  have x: "x = (case firstError E tracks of Some e \<Rightarrow> Inl e | None \<Rightarrow> Inr (batchOf E tracks))"
    by (simp split: option.splits)
  show ?case
  proof (cases "firstError E tracks")
    case (Some e)
    with a rt x show ?thesis by (simp add: firstError_append)
  next
    case None
    with a rt x Cons.IH show ?thesis by (simp add: firstError_append)
  qed
qed

lemma batchOf_nonempty:
  "(batchOf E tracks \<noteq> []) = (\<exists>t \<in> set tracks. \<exists>report. statsOf E t = Inr (Some report))"
  by (induction tracks) (auto simp: batchOf_def contribution_def split: sum.splits option.splits)

lemma handed_streams: "map snd (handed E streams) = map fst (filter (\<lambda>(streamId, tracks). batchOf E tracks \<noteq> []) streams)"
  by (induction streams) (auto simp: handed_def)

lemma handed_subseq: "subseq (map snd (handed E (answered E streams))) (map fst streams)"
proof -
  have "subseq (filter (\<lambda>(streamId, tracks). batchOf E tracks \<noteq> []) (answered E streams)) (answered E streams)"
    by simp
  moreover have "subseq (answered E streams) streams"
    unfolding answered_def by (metis prefix_imp_subseq takeWhile_is_prefix)
  ultimately have "subseq (filter (\<lambda>(streamId, tracks). batchOf E tracks \<noteq> []) (answered E streams)) streams"
    by (rule subseq_order.trans)
  then show ?thesis
    by (simp add: handed_streams subseq_map)
qed

lemma handed_distinct:
  assumes "distinct (map fst streams)"
  shows "distinct (map snd (handed E (answered E streams)))"
proof -
  have "answered E streams = take (length (answered E streams)) streams"
    unfolding answered_def by (rule takeWhile_eq_take)
  then have "map fst (answered E streams) = take (length (answered E streams)) (map fst streams)"
    by (metis take_map)
  with assms have "distinct (map fst (answered E streams))"
    by (metis distinct_take)
  then show ?thesis
    by (simp add: handed_streams distinct_map_filter)
qed

lemma answered_all: "firstError E (concat (map snd streams)) = None \<Longrightarrow> answered E streams = streams"
  by (induction streams) (auto simp: answered_def firstError_append split: option.splits)

lemma handed_member:
  "(stats, streamId) \<in> set (handed E streams) \<Longrightarrow>
     stats \<noteq> [] \<and> (\<exists>tracks. (streamId, tracks) \<in> set streams \<and> stats = batchOf E tracks)"
  by (auto simp: handed_def)

lemma answered_subset: "set (answered E streams) \<subseteq> set streams"
  unfolding answered_def by (auto dest: set_takeWhileD)

lemma receiverStreams_summary:
  assumes run: "receiverStreams E receivers [] c = (r, out, c')"
  shows "subseq (map snd out) (map fst receivers)
       \<and> (distinct (map fst receivers) \<longrightarrow> distinct (map snd out))
       \<and> (\<forall>(stats, streamId) \<in> set out. stats \<noteq> [] \<and>
            (\<exists>tracks. (streamId, tracks) \<in> set receivers \<and> stats = batchOf E tracks \<and>
               (\<exists>t \<in> set tracks. \<exists>report. statsOf E t = Inr (Some report))))
       \<and> (r = Inr () \<longrightarrow> out = handed E receivers)
       \<and> (r = Inr ()) = (firstError E (concat (map snd receivers)) = None)"
proof -
  from run have out: "out = handed E (answered E receivers)"
    using receiverStreams_collected [of E receivers "[]" c]
    by simp
  from run have r: "r = (case firstError E (concat (map snd receivers)) of
      Some e \<Rightarrow> Inl e | None \<Rightarrow> Inr ())"
    using receiverStreams_outcome [of E receivers "[]" c]
    by simp
  have order: "subseq (map snd out) (map fst receivers)"
    unfolding out by (rule handed_subseq)
  have once: "distinct (map fst receivers) \<longrightarrow> distinct (map snd out)"
    unfolding out by (simp add: handed_distinct)
  have batches: "\<forall>(stats, streamId) \<in> set out. stats \<noteq> [] \<and>
      (\<exists>tracks. (streamId, tracks) \<in> set receivers \<and> stats = batchOf E tracks \<and>
         (\<exists>t \<in> set tracks. \<exists>report. statsOf E t = Inr (Some report)))"
  proof (clarify, intro conjI)
    fix stats streamId
    assume mem: "(stats, streamId) \<in> set out"
    from handed_member [OF mem [unfolded out]]
    obtain tracks where ne: "stats \<noteq> []" and tr: "(streamId, tracks) \<in> set (answered E receivers)"
      and st: "stats = batchOf E tracks" by blast
    show "stats \<noteq> []" by (rule ne)
    from tr answered_subset have "(streamId, tracks) \<in> set receivers" by blast
    moreover from ne st batchOf_nonempty [of E tracks]
    have "\<exists>t \<in> set tracks. \<exists>report. statsOf E t = Inr (Some report)" by simp
    ultimately show "\<exists>tracks. (streamId, tracks) \<in> set receivers \<and> stats = batchOf E tracks \<and>
         (\<exists>t \<in> set tracks. \<exists>report. statsOf E t = Inr (Some report))"
      using st by blast
  qed
  have full: "r = Inr () \<longrightarrow> out = handed E receivers"
    using r out answered_all [of E receivers] by (auto split: option.splits)
  have outcome: "(r = Inr ()) = (firstError E (concat (map snd receivers)) = None)"
    using r by (auto split: option.splits)
  from order once batches full outcome show ?thesis by blast
qed

lemma receiverTracks_append:
  "receiverTracks E (xs @ ys) stats c =
     (case receiverTracks E xs stats c of
        (Inl e, c1) \<Rightarrow> (Inl e, c1)
      | (Inr stats1, c1) \<Rightarrow> receiverTracks E ys stats1 c1)"
  by (induction xs arbitrary: stats c) (auto simp: host_getStats_def split: sum.splits option.splits)

lemma senderEntry_tracks:
  "senderEntry E entry stats c =
     receiverTracks E (case qualifying entry of None \<Rightarrow> [] | Some t \<Rightarrow> [t]) stats c"
  by (auto simp: senderEntry_def host_getStats_def split: option.splits sum.splits)

lemma senderStreams_receiverStreams:
  "senderStreams E senders out c = receiverStreams E (senderStreamTracks senders) out c"
proof (induction senders arbitrary: out c)
  case Nil
  show ?case by (simp add: senderStreamTracks_def)
next
  case (Cons a senders)
  obtain streamId stream where a: "a = (streamId, stream)" by (cases a)
  have both: "receiverTracks E (senderTracks stream) [] c =
      (case senderEntry E (tracks_video stream) [] c of
         (Inl e, c1) \<Rightarrow> (Inl e, c1)
       | (Inr stats1, c1) \<Rightarrow> senderEntry E (tracks_audio stream) stats1 c1)"
    by (simp only: senderTracks_def receiverTracks_append senderEntry_tracks)
  from Cons.IH have IH: "\<And>out c. senderStreams E senders out c =
      receiverStreams E (senderStreamTracks senders) out c" .
  show ?case
    unfolding a
    by (simp add: senderStreamTracks_def both IH [unfolded senderStreamTracks_def]
          split: prod.splits sum.splits)
qed

lemma qualifying_Some:
  "(qualifying entry = Some t) =
     (\<exists>e s. entry = Some e \<and> se_track e = Some t \<and> se_sender e = Some s)"
  by (cases entry) (auto split: option.splits)

lemma senderBatch:
  "batchOf E (senderTracks stream) =
     (case qualifying (tracks_video stream) of None \<Rightarrow> [] | Some t \<Rightarrow> contribution E t) @
     (case qualifying (tracks_audio stream) of None \<Rightarrow> [] | Some t \<Rightarrow> contribution E t)"
  by (simp add: batchOf_def senderTracks_def split: option.splits)

lemma senderStreamTracks_keys: "map fst (senderStreamTracks senders) = map fst senders"
  by (induction senders) (auto simp: senderStreamTracks_def)

lemmas setter_defs = set_onCandidate_def set_onConnectionStateChange_def set_onDataChannel_def
  set_onGatheringStateChange_def set_onHandshakeStateChange_def set_onTrack_def
  set_onBufferedAmountLow_def set_onClose_def set_onMessage_def

lemma invocations_expected:
  assumes fire: "\<And>s ev h. fire s ev h =
      (case reg h s of None \<Rightarrow> [] | Some cb \<Rightarrow> [(s, cb, arg s ev)])"
    and set: "\<And>s cb h. reg (setter s cb h) = (reg h)(s := cb)"
  shows "invocations setter fire acts h = expected arg acts (reg h)"
proof (induction acts arbitrary: h)
  case Nil
  show ?case by simp
next
  case (Cons a acts)
  show ?case
  proof (cases a)
    case (SetSlot s cb)
    have "invocations setter fire (a # acts) h = invocations setter fire acts (setter s cb h)"
      by (simp add: SetSlot)
    also have "\<dots> = expected arg acts (reg (setter s cb h))"
      by (rule Cons.IH)
    also have "\<dots> = expected arg acts ((reg h)(s := cb))"
      by (simp only: set)
    also have "\<dots> = expected arg (a # acts) (reg h)"
      by (simp only: SetSlot expected.simps)
    finally show ?thesis .
  next
    case (FireEvent s ev)
    have "invocations setter fire (a # acts) h = fire s ev h @ invocations setter fire acts h"
      by (simp add: FireEvent)
    also have "\<dots> = fire s ev h @ expected arg acts (reg h)"
      by (simp only: Cons.IH)
    also have "\<dots> = expected arg (a # acts) (reg h)"
      by (simp only: FireEvent expected.simps fire)
    finally show ?thesis .
  qed
qed

lemma pc_fire_registered:
  "pc_fire s ev c = (case pc_registered c s of None \<Rightarrow> [] | Some cb \<Rightarrow> [(s, cb, pc_argument s ev)])"
  by (cases s) (simp_all add: plain_def split: option.splits datachannel_listener.splits)

lemma pc_set_registered: "pc_registered (pc_set s cb c) = (pc_registered c)(s := cb)"
proof
  fix s'
  show "pc_registered (pc_set s cb c) s' = ((pc_registered c)(s := cb)) s'"
    by (cases s; cases s') (simp_all add: setter_defs split: option.splits)
qed

lemma dc_fire_registered:
  "dc_fire s ev d = (case dc_registered d s of None \<Rightarrow> [] | Some cb \<Rightarrow> [(s, cb, dc_argument s ev)])"
  by (cases s) (simp_all add: plain_def dc_argument_def split: option.splits)

lemma dc_set_registered: "dc_registered (dc_set s cb d) = (dc_registered d)(s := cb)"
proof
  fix s'
  show "dc_registered (dc_set s cb d) s' = ((dc_registered d)(s := cb)) s'"
    by (cases s; cases s') (simp_all add: setter_defs)
qed

lemma expected_silent:
  assumes "registered s = None" and "\<forall>cb. SetSlot s (Some cb) \<notin> set acts"
  shows "filter (\<lambda>i. fst i = s) (expected arg acts registered) = []"
  using assms
proof (induction acts arbitrary: registered)
  case Nil
  show ?case by simp
next
  case (Cons a acts)
  show ?case
  proof (cases a)
    case (SetSlot s' cb)
    with Cons.prems have none: "(registered(s' := cb)) s = None"
      by (cases cb) auto
    from Cons.prems have rest: "\<forall>cb. SetSlot s (Some cb) \<notin> set acts"
      by simp
    have "filter (\<lambda>i. fst i = s) (expected arg acts (registered(s' := cb))) = []"
      using none rest by (rule Cons.IH)
    then show ?thesis
      by (simp only: SetSlot expected.simps)
  next
    case (FireEvent s' ev)
    with Cons.IH [of registered] Cons.prems show ?thesis
      by (auto split: option.splits)
  qed
qed

lemma receiverTracks_remote:
  "remoteDescription (snd (receiverTracks E tracks stats c)) = remoteDescription c"
  by (induction tracks arbitrary: stats c)
     (simp_all add: host_getStats_def logged_def split: sum.splits option.splits)

lemma receiverStreams_remote:
  "remoteDescription (snd (snd (receiverStreams E streams out c))) = remoteDescription c"
proof (induction streams arbitrary: out c)
  case Nil
  show ?case by simp
next
  case (Cons a streams)
  obtain streamId tracks where a: "a = (streamId, tracks)" by (cases a)
  obtain x c1 where rt: "receiverTracks E tracks [] c = (x, c1)"
    by (cases "receiverTracks E tracks [] c")
  from receiverTracks_remote [of E tracks "[]" c] rt
  have c1: "remoteDescription c1 = remoteDescription c" by simp
  show ?case
    using rt c1 Cons.IH by (cases x) (simp_all add: a)
qed

lemma createAnswer_remote:
  "remoteDescription (snd (createAnswer E offer c)) =
     (if rejectRemote E offer c = None then Some offer else remoteDescription c)"
  by (simp add: createAnswer_def host_defs split: option.splits sum.splits)

lemma handleAnswer_remote:
  "remoteDescription (snd (handleAnswer E answer h c)) =
     (if rejectRemote E answer c = None then Some answer else remoteDescription c)"
  by (simp add: handleAnswer_def host_defs split: option.splits)

lemma createOffer_remote:
  "remoteDescription (snd (createOffer E options c)) = remoteDescription c"
  by (simp add: createOffer_def host_defs Let_def split: option.splits sum.splits)

lemma replaceTrack_remote:
  "remoteDescription (snd (replaceTrack E t s c)) = remoteDescription c"
  by (simp add: replaceTrack_def host_defs split: option.splits)

lemma setEncodingParameters_remote:
  "remoteDescription (snd (snd (setEncodingParameters E s a b m p c))) = remoteDescription c"
  by (simp add: setEncodingParameters_def host_defs Let_def split: option.splits)

lemma pc_set_remote: "remoteDescription (pc_set s cb c) = remoteDescription c"
  by (cases s)
     (simp_all add: set_onCandidate_def set_onConnectionStateChange_def set_onDataChannel_def
        set_onGatheringStateChange_def set_onHandshakeStateChange_def set_onTrack_def
        split: option.splits)

lemma commits_eq:
  "(fst (host_setRemoteDescription E d c) = Inr ()) = (rejectRemote E d c = None)"
  by (simp add: host_setRemoteDescription_def split: option.splits)

lemma perform_canAddCandidates:
  "canAddCandidates (perform E op c) = (canAddCandidates c \<or> commits E op c)"
proof (cases op)
  case (CreateAnswerOp offer)
  then show ?thesis
    by (auto simp add: canAddCandidates_def createAnswer_remote commits_eq)
next
  case (HandleAnswerOp answer h)
  then show ?thesis
    by (auto simp add: canAddCandidates_def handleAnswer_remote commits_eq)
next
  case (CreateOfferOp options)
  then show ?thesis
    by (simp add: canAddCandidates_def createOffer_remote)
next
  case (ReplaceTrackOp t s)
  then show ?thesis
    by (simp add: canAddCandidates_def replaceTrack_remote)
next
  case (SetEncodingParametersOp s a b m p)
  then show ?thesis
    by (simp add: canAddCandidates_def setEncodingParameters_remote)
next
  case (CollectReceiversStatsOp receivers)
  then show ?thesis
    by (simp add: canAddCandidates_def collectReceiversStats_def receiverStreams_remote)
next
  case (CollectSendersStatsOp senders)
  then show ?thesis
    by (simp add: canAddCandidates_def collectSendersStats_def senderStreams_receiverStreams
          receiverStreams_remote)
next
  case (SetCallbackOp s cb)
  then show ?thesis
    by (simp add: canAddCandidates_def pc_set_remote)
qed

lemma history_canAddCandidates:
  "canAddCandidates (history E ops c) = (canAddCandidates c \<or> committed E ops c)"
  by (induction ops arbitrary: c) (auto simp: perform_canAddCandidates)

lemma replaceTrack_resolved:
  assumes "replaceTrack E track rtcSender c = (Inr (), c')"
  shows "rejectReplace E rtcSender track c = None"
    and "calls c' = calls c @ [ReplaceTrack rtcSender track, GetTransceivers]"
    and "transceivers c' =
      map (\<lambda>tr. if tr_sender tr = rtcSender
                 then tr\<lparr>tr_track := Some track, direction := sendrecv\<rparr> else tr) (transceivers c)"
proof -
  from assms show none: "rejectReplace E rtcSender track c = None"
    by (cases "rejectReplace E rtcSender track c") (simp_all add: replaceTrack_def host_defs)
  from assms none show "calls c' = calls c @ [ReplaceTrack rtcSender track, GetTransceivers]"
    by (auto simp add: replaceTrack_def host_defs)
  from assms none have "transceivers c' =
      map (\<lambda>transceiver. if tr_sender transceiver = rtcSender
                 then transceiver\<lparr>direction := sendrecv\<rparr> else transceiver)
        (map (\<lambda>tr. if tr_sender tr = rtcSender then tr\<lparr>tr_track := Some track\<rparr> else tr)
           (transceivers c))"
    by (auto simp add: replaceTrack_def host_defs)
  also have "\<dots> = map (\<lambda>tr. if tr_sender tr = rtcSender
                 then tr\<lparr>tr_track := Some track, direction := sendrecv\<rparr> else tr) (transceivers c)"
    by (induction "transceivers c") auto
  finally show "transceivers c' =
      map (\<lambda>tr. if tr_sender tr = rtcSender
                 then tr\<lparr>tr_track := Some track, direction := sendrecv\<rparr> else tr) (transceivers c)" .
qed

lemma replaceTrack_rejected:
  assumes "replaceTrack E track rtcSender c = (Inl e, c')"
  shows "rejectReplace E rtcSender track c = Some e
       \<and> calls c' = calls c @ [ReplaceTrack rtcSender track]
       \<and> transceivers c' = transceivers c"
  using assms
  by (cases "rejectReplace E rtcSender track c") (auto simp add: replaceTrack_def host_defs)

lemma replaceTrack_accepts:
  "rejectReplace E rtcSender track c = None \<Longrightarrow> fst (replaceTrack E track rtcSender c) = Inr ()"
  by (simp add: replaceTrack_def host_defs)

lemma owners_sendrecv:
  "\<forall>tr \<in> set (map (\<lambda>tr. if tr_sender tr = rtcSender
        then tr\<lparr>tr_track := Some track, direction := sendrecv\<rparr> else tr) trs).
     tr_sender tr = rtcSender \<longrightarrow> direction tr = sendrecv"
  by (induction trs) simp_all

lemma setEncodingParameters_absent:
  "parametersOf E rtcSender c = None \<Longrightarrow>
     setEncodingParameters E rtcSender scaleDown framerate bitrate prio c =
       (Inr (), None, logged (GetParameters rtcSender) c)"
  by (simp add: setEncodingParameters_def host_getParameters_def)

lemma setEncodingParameters_present:
  "parametersOf E rtcSender c = Some ps \<Longrightarrow>
     setEncodingParameters E rtcSender scaleDown framerate bitrate prio c =
       (Inr (), Some (Inr ()),
        logged (SetParameters rtcSender
           (ps\<lparr>encodings := map (\<lambda>encoding. encoding
                        \<lparr>scaleResolutionDownBy := Some scaleDown,
                         maxFramerate := Some framerate,
                         maxBitrate := Some bitrate,
                         priority := Some (convertPriority prio)\<rparr>) (encodings ps)\<rparr>))
          (logged (GetParameters rtcSender) c))"
  by (simp add: setEncodingParameters_def host_getParameters_def host_setParameters_def
        catch_ignore_def Let_def split: option.splits)

lemma layers_uniform:
  "\<forall>enc \<in> set (map (\<lambda>encoding. encoding
                        \<lparr>scaleResolutionDownBy := Some scaleDown,
                         maxFramerate := Some framerate,
                         maxBitrate := Some bitrate,
                         priority := Some p\<rparr>) encs).
      scaleResolutionDownBy enc = Some scaleDown \<and> maxFramerate enc = Some framerate
      \<and> maxBitrate enc = Some bitrate \<and> priority enc = Some p"
  by (induction encs) simp_all

lemma layers_active:
  "map active (map (\<lambda>encoding. encoding
                        \<lparr>scaleResolutionDownBy := Some scaleDown,
                         maxFramerate := Some framerate,
                         maxBitrate := Some bitrate,
                         priority := Some p\<rparr>) encs) = map active encs"
  by (induction encs) simp_all

section \<open>convertPriority\<close>

text \<open>
  C8. The priority conversion maps \<open>Low\<close> to \<open>low\<close>, \<open>High\<close> to \<open>high\<close> and every
  other value of the enumeration to \<open>medium\<close>.
\<close>

theorem convertPriority_table:
  "convertPriority p = (if p = Low then low else if p = High then high else medium)"
  by (cases p) simp_all

section \<open>createAnswer\<close>

text \<open>
  C1. Whatever the engine decides, \<open>createAnswer\<close> makes its host calls in the order
  remote-description commit, answer generation, local-description commit, and stops at
  the first that fails. It returns an answer only when all three succeeded: the three
  calls were made in that order, the answer returned is the one the host generated and
  the one committed, and both descriptions are set. When the engine rejects the remote
  description the rejection is what the caller gets, the commit is the only host call
  made (no answer is generated) and no description has changed. When answer generation
  fails, its failure is what the caller gets and no local description is committed; when
  the local commit is rejected, its rejection is what the caller gets and the local
  description is unchanged. When the engine accepts all three steps the call does
  return the generated answer.
\<close>

theorem createAnswer_steps:
  assumes run: "createAnswer E offer c = (r, c')"
  shows "(\<exists>a n. 1 \<le> n \<and> calls c' =
            calls c @ take n [SetRemoteDescription offer, CreateAnswer, SetLocalDescription a])
       \<and> (\<forall>answer. r = Inr answer \<longrightarrow>
            calls c' = calls c @ [SetRemoteDescription offer, CreateAnswer, SetLocalDescription answer]
            \<and> remoteDescription c' = Some offer \<and> localDescription c' = Some answer
            \<and> rejectRemote E offer c = None
            \<and> answerOf E ((logged (SetRemoteDescription offer) c)\<lparr>remoteDescription := Some offer\<rparr>)
                = Inr answer
            \<and> rejectLocal E answer (logged CreateAnswer
                  ((logged (SetRemoteDescription offer) c)\<lparr>remoteDescription := Some offer\<rparr>)) = None)
       \<and> (\<forall>e. rejectRemote E offer c = Some e \<longrightarrow>
            r = Inl e \<and> calls c' = calls c @ [SetRemoteDescription offer]
            \<and> localDescription c' = localDescription c
            \<and> remoteDescription c' = remoteDescription c)
       \<and> (\<forall>e. rejectRemote E offer c = None
              \<and> answerOf E ((logged (SetRemoteDescription offer) c)\<lparr>remoteDescription := Some offer\<rparr>)
                  = Inl e
            \<longrightarrow> r = Inl e \<and> calls c' = calls c @ [SetRemoteDescription offer, CreateAnswer]
                \<and> remoteDescription c' = Some offer
                \<and> localDescription c' = localDescription c)
       \<and> (\<forall>a e. rejectRemote E offer c = None
              \<and> answerOf E ((logged (SetRemoteDescription offer) c)\<lparr>remoteDescription := Some offer\<rparr>)
                  = Inr a
              \<and> rejectLocal E a (logged CreateAnswer
                    ((logged (SetRemoteDescription offer) c)\<lparr>remoteDescription := Some offer\<rparr>)) = Some e
            \<longrightarrow> r = Inl e
                \<and> calls c' = calls c @ [SetRemoteDescription offer, CreateAnswer, SetLocalDescription a]
                \<and> remoteDescription c' = Some offer
                \<and> localDescription c' = localDescription c)
       \<and> (\<forall>a. rejectRemote E offer c = None
              \<and> answerOf E ((logged (SetRemoteDescription offer) c)\<lparr>remoteDescription := Some offer\<rparr>) = Inr a
              \<and> rejectLocal E a (logged CreateAnswer
                    ((logged (SetRemoteDescription offer) c)\<lparr>remoteDescription := Some offer\<rparr>)) = None
            \<longrightarrow> r = Inr a)"
proof -
  let ?c1 = "(logged (SetRemoteDescription offer) c)\<lparr>remoteDescription := Some offer\<rparr>"
  let ?c2 = "logged CreateAnswer ?c1"
  consider (remote) e where "rejectRemote E offer c = Some e"
    | (generate) e where "rejectRemote E offer c = None" "answerOf E ?c1 = Inl e"
    | (local) a e where "rejectRemote E offer c = None" "answerOf E ?c1 = Inr a"
        "rejectLocal E a ?c2 = Some e"
    | (complete) a where "rejectRemote E offer c = None" "answerOf E ?c1 = Inr a"
        "rejectLocal E a ?c2 = None"
  proof (cases "rejectRemote E offer c")
    case None
    show ?thesis
    proof (cases "answerOf E ?c1")
      case (Inl e)
      with None generate show ?thesis by blast
    next
      case (Inr a)
      with None local complete show ?thesis by (cases "rejectLocal E a ?c2") blast+
    qed
  next
    case (Some e)
    with remote show ?thesis by blast
  qed
  then show ?thesis
  proof cases
    case remote
    with run have res: "r = Inl e" "c' = logged (SetRemoteDescription offer) c"
      by (auto simp: createAnswer_def host_setRemoteDescription_def)
    have "calls c' = calls c @
        take 1 [SetRemoteDescription offer, CreateAnswer, SetLocalDescription offer]"
      by (simp add: res logged_def)
    then have "\<exists>a n. 1 \<le> n \<and> calls c' =
        calls c @ take n [SetRemoteDescription offer, CreateAnswer, SetLocalDescription a]"
      by blast
    with remote res show ?thesis by (simp add: logged_def)
  next
    case generate
    with run have res: "r = Inl e" "c' = ?c2"
      by (auto simp: createAnswer_def host_setRemoteDescription_def host_createAnswer_def)
    have "calls c' = calls c @
        take 2 [SetRemoteDescription offer, CreateAnswer, SetLocalDescription offer]"
      by (simp add: res logged_def)
    then have "\<exists>a n. 1 \<le> n \<and> calls c' =
        calls c @ take n [SetRemoteDescription offer, CreateAnswer, SetLocalDescription a]"
      by (metis one_le_numeral)
    with generate res show ?thesis by (simp add: logged_def)
  next
    case local
    with run have res: "r = Inl e" "c' = logged (SetLocalDescription a) ?c2"
      by (auto simp: createAnswer_def host_setRemoteDescription_def host_createAnswer_def
            host_setLocalDescription_def)
    have "calls c' = calls c @
        take 3 [SetRemoteDescription offer, CreateAnswer, SetLocalDescription a]"
      by (simp add: res logged_def)
    then have "\<exists>a n. 1 \<le> n \<and> calls c' =
        calls c @ take n [SetRemoteDescription offer, CreateAnswer, SetLocalDescription a]"
      by (metis one_le_numeral)
    with local res show ?thesis by (simp add: logged_def)
  next
    case complete
    with run have res: "r = Inr a"
        "c' = (logged (SetLocalDescription a) ?c2)\<lparr>localDescription := Some a\<rparr>"
      by (auto simp: createAnswer_def host_setRemoteDescription_def host_createAnswer_def
            host_setLocalDescription_def)
    have "calls c' = calls c @
        take 3 [SetRemoteDescription offer, CreateAnswer, SetLocalDescription a]"
      by (simp add: res logged_def)
    then have "\<exists>a n. 1 \<le> n \<and> calls c' =
        calls c @ take n [SetRemoteDescription offer, CreateAnswer, SetLocalDescription a]"
      by (metis one_le_numeral)
    with complete res show ?thesis by (simp add: logged_def)
  qed
qed

text \<open>
  On a fresh connection: an engine that accepts everything, one that rejects the
  remote description, and one that accepts it but fails to generate an answer.
\<close>

theorem createAnswer_steps_witness:
  "createAnswer accepting offer0 connection0 =
     (Inr answer0, connection0\<lparr>remoteDescription := Some offer0, localDescription := Some answer0,
        calls := [SetRemoteDescription offer0, CreateAnswer, SetLocalDescription answer0]\<rparr>)
   \<and> createAnswer refusing offer0 connection0 =
     (Inl (DOMException ''InvalidStateError''),
      connection0\<lparr>calls := [SetRemoteDescription offer0]\<rparr>)
   \<and> createAnswer answerless offer0 connection0 =
     (Inl (DOMException ''OperationError''),
      connection0\<lparr>remoteDescription := Some offer0,
        calls := [SetRemoteDescription offer0, CreateAnswer]\<rparr>)"
proof -
  let ?c3 = "connection0\<lparr>remoteDescription := Some offer0, localDescription := Some answer0,
        calls := [SetRemoteDescription offer0, CreateAnswer, SetLocalDescription answer0]\<rparr>"
  let ?c1 = "connection0\<lparr>calls := [SetRemoteDescription offer0]\<rparr>"
  let ?c2 = "connection0\<lparr>remoteDescription := Some offer0,
        calls := [SetRemoteDescription offer0, CreateAnswer]\<rparr>"
  obtain r where ok: "createAnswer accepting offer0 connection0 = (r, ?c3)"
    by (simp add: createAnswer_def host_defs fixture_defs)
  obtain r2 where no: "createAnswer refusing offer0 connection0 = (r2, ?c1)"
    by (simp add: createAnswer_def host_defs fixture_defs)
  obtain r3 where gen: "createAnswer answerless offer0 connection0 = (r3, ?c2)"
    by (simp add: createAnswer_def host_defs fixture_defs answerless_def)
  from createAnswer_steps [OF ok] have "r = Inr answer0"
    by (simp add: accepting_def)
  moreover from createAnswer_steps [OF no] have "r2 = Inl (DOMException ''InvalidStateError'')"
    by (simp add: refusing_def)
  moreover from createAnswer_steps [OF gen] have "r3 = Inl (DOMException ''OperationError'')"
    by (simp add: answerless_def accepting_def)
  ultimately show ?thesis
    using ok no gen by simp
qed

section \<open>collectReceiversStats\<close>

text \<open>
  C3, as the code has it. For every receivers mapping and every engine, the collector
  is invoked for streams in the mapping's iteration order, at most once per entry (so
  at most once per stream, the keys of a mapping being distinct), each time with a
  batch that is not empty and is exactly what the stream's tracks contributed; it is
  invoked for a stream only if the engine resolved with a report for at least one of
  the stream's tracks. Such a report counts whether or not it has entries. When
  no statistics request is rejected, every stream with such a report gets its
  invocation and the call resolves; it resolves exactly when no request is rejected.
\<close>

theorem collectReceiversStats_collector:
  assumes run: "collectReceiversStats E receivers c = (r, out, c')"
  shows "subseq (map snd out) (map fst receivers)
       \<and> (distinct (map fst receivers) \<longrightarrow> distinct (map snd out))
       \<and> (\<forall>(stats, streamId) \<in> set out. stats \<noteq> [] \<and>
            (\<exists>tracks. (streamId, tracks) \<in> set receivers \<and> stats = batchOf E tracks \<and>
               (\<exists>t \<in> set tracks. \<exists>report. statsOf E t = Inr (Some report))))
       \<and> (r = Inr () \<longrightarrow> out = handed E receivers)
       \<and> (r = Inr ()) = (firstError E (concat (map snd receivers)) = None)"
  using run unfolding collectReceiversStats_def by (rule receiverStreams_summary)

text \<open>
  The mapping of the specification's example: \<open>streamB\<close>'s only track yields no
  statistics, and the collector is invoked once, for \<open>streamA\<close>, with two reports.
\<close>

theorem collectReceiversStats_collector_witness:
  "fst (snd (collectReceiversStats accepting [(''streamA'', [1, 2]), (''streamB'', [3])] connection0)) =
     [([[''inbound-rtp'', ''transport''], [''inbound-rtp'', ''transport'']], ''streamA'')]"
proof -
  obtain r out c' where
    run: "collectReceiversStats accepting [(''streamA'', [1, 2]), (''streamB'', [3])] connection0 = (r, out, c')"
    by (cases "collectReceiversStats accepting [(''streamA'', [1, 2]), (''streamB'', [3])] connection0")
  note facts = collectReceiversStats_collector [OF run]
  from facts have "r = Inr ()" by (simp add: accepting_def)
  with facts have "out = handed accepting [(''streamA'', [1, 2]), (''streamB'', [3])]" by blast
  with run show ?thesis
    by (simp add: handed_def batchOf_def contribution_def accepting_def)
qed

text \<open>
  A report without entries is still a report: for a stream whose only track has one,
  the collector is invoked, with a batch holding one empty sequence.
\<close>

theorem collectReceiversStats_empty_report:
  "statsOf accepting 5 = Inr (Some [])
   \<and> fst (snd (collectReceiversStats accepting [(''streamA'', [5])] connection0)) =
       [([[]], ''streamA'')]"
  by (simp add: collectReceiversStats_def host_getStats_def convertStatsReport_def accepting_def)

section \<open>collectSendersStats\<close>

text \<open>
  C10. For every senders mapping and every engine, the collector is invoked in the
  mapping's iteration order with, for each stream it is invoked for, a batch that is
  not empty and consists of what the video entry contributed followed by what the
  audio entry contributed. An entry contributes only when it qualifies, that is when
  the entry, its track and its sender are all present, and then contributes the
  report the engine resolved with for its track, if any. A stream whose batch is empty
  gets no invocation.
\<close>

theorem collectSendersStats_collector:
  assumes run: "collectSendersStats E senders c = (r, out, c')"
  shows "subseq (map snd out) (map fst senders)
       \<and> (\<forall>(stats, streamId) \<in> set out. stats \<noteq> [] \<and>
            (\<exists>stream. (streamId, stream) \<in> set senders \<and>
               stats =
                 (case qualifying (tracks_video stream) of None \<Rightarrow> [] | Some t \<Rightarrow> contribution E t) @
                 (case qualifying (tracks_audio stream) of None \<Rightarrow> [] | Some t \<Rightarrow> contribution E t)))
       \<and> (\<forall>entry t. (qualifying entry = Some t) =
            (\<exists>e s. entry = Some e \<and> se_track e = Some t \<and> se_sender e = Some s))
       \<and> (r = Inr () \<longrightarrow> out = handed E (senderStreamTracks senders))
       \<and> (r = Inr ()) = (firstError E (concat (map senderTracks (map snd senders))) = None)"
proof -
  from run have run': "receiverStreams E (senderStreamTracks senders) [] c = (r, out, c')"
    by (simp add: collectSendersStats_def senderStreams_receiverStreams)
  note rc = receiverStreams_summary [OF run']
  have order: "subseq (map snd out) (map fst senders)"
    using rc by (simp add: senderStreamTracks_keys)
  have batches: "\<forall>(stats, streamId) \<in> set out. stats \<noteq> [] \<and>
      (\<exists>stream. (streamId, stream) \<in> set senders \<and>
         stats =
           (case qualifying (tracks_video stream) of None \<Rightarrow> [] | Some t \<Rightarrow> contribution E t) @
           (case qualifying (tracks_audio stream) of None \<Rightarrow> [] | Some t \<Rightarrow> contribution E t))"
  proof (clarify, intro conjI)
    fix stats streamId
    assume mem: "(stats, streamId) \<in> set out"
    with rc obtain tracks where ne: "stats \<noteq> []"
        and tr: "(streamId, tracks) \<in> set (senderStreamTracks senders)"
        and st: "stats = batchOf E tracks"
      by blast
    show "stats \<noteq> []" by (rule ne)
    from tr obtain stream where "(streamId, stream) \<in> set senders" "tracks = senderTracks stream"
      by (auto simp: senderStreamTracks_def)
    with st show "\<exists>stream. (streamId, stream) \<in> set senders \<and>
         stats =
           (case qualifying (tracks_video stream) of None \<Rightarrow> [] | Some t \<Rightarrow> contribution E t) @
           (case qualifying (tracks_audio stream) of None \<Rightarrow> [] | Some t \<Rightarrow> contribution E t)"
      using senderBatch by blast
  qed
  have tracks: "map snd (senderStreamTracks senders) = map senderTracks (map snd senders)"
    by (induction senders) (auto simp: senderStreamTracks_def)
  have outcome: "(r = Inr ()) = (firstError E (concat (map senderTracks (map snd senders))) = None)"
    using rc tracks by simp
  from order batches qualifying_Some rc outcome show ?thesis by blast
qed

text \<open>
  Both entries of \<open>streamA\<close> qualify and yield reports, the video one first;
  \<open>streamB\<close>'s video entry has no sender and contributes nothing.
\<close>

theorem collectSendersStats_collector_witness:
  "fst (snd (collectSendersStats accepting
      [(''streamA'', \<lparr>tracks_video = Some \<lparr>se_track = Some 1, se_sender = Some 7\<rparr>,
                       tracks_audio = Some \<lparr>se_track = Some 5, se_sender = Some 8\<rparr>\<rparr>),
       (''streamB'', \<lparr>tracks_video = Some \<lparr>se_track = Some 1, se_sender = None\<rparr>,
                       tracks_audio = None\<rparr>)] connection0)) =
     [([[''inbound-rtp'', ''transport''], []], ''streamA'')]"
proof -
  let ?senders = "[(''streamA'', \<lparr>tracks_video = Some \<lparr>se_track = Some 1, se_sender = Some 7\<rparr>,
                       tracks_audio = Some \<lparr>se_track = Some 5, se_sender = Some 8\<rparr>\<rparr>),
       (''streamB'', \<lparr>tracks_video = Some \<lparr>se_track = Some (1::nat), se_sender = None\<rparr>,
                       tracks_audio = None\<rparr>)]"
  obtain r out c' where run: "collectSendersStats accepting ?senders connection0 = (r, out, c')"
    by (cases "collectSendersStats accepting ?senders connection0")
  note facts = collectSendersStats_collector [OF run]
  from facts have "r = Inr ()" by (simp add: accepting_def senderTracks_def)
  with facts have "out = handed accepting (senderStreamTracks ?senders)" by blast
  with run show ?thesis
    by (simp add: handed_def batchOf_def contribution_def accepting_def senderStreamTracks_def
          senderTracks_def)
qed

section \<open>canAddCandidates\<close>

text \<open>
  C2. \<open>canAddCandidates\<close> is false on a connector just constructed, and after any
  history of connector calls it is true exactly when some call of the history committed
  a remote description, that is when the engine accepted the description given to
  \<open>createAnswer\<close> or \<open>handleAnswer\<close>; it is false as long as every such commit was
  rejected. From any connection, it is true after a history exactly when it was true
  before or a call of the history committed.
\<close>

theorem canAddCandidates_after_commit:
  "canAddCandidates (constructor config) = False
   \<and> canAddCandidates (history E ops (constructor config)) =
       committed E ops (constructor config)
   \<and> canAddCandidates (history E ops c) = (canAddCandidates c \<or> committed E ops c)"
  by (simp add: history_canAddCandidates)
     (simp add: canAddCandidates_def constructor_def new_RTCPeerConnection_def)

text \<open>
  An engine that rejects both commits, then one that accepts the only commit of a
  history of three calls.
\<close>

theorem canAddCandidates_after_commit_witness:
  "canAddCandidates (history refusing [CreateAnswerOp offer0, HandleAnswerOp answer0 1] connection0) = False
   \<and> canAddCandidates (history accepting
         [CreateOfferOp None, SetCallbackOp OnTrack (Some 3), HandleAnswerOp answer0 1] connection0) = True"
proof -
  have no: "committed refusing [CreateAnswerOp offer0, HandleAnswerOp answer0 1] connection0 = False"
    by (simp add: commits_eq refusing_def)
  have yes: "committed accepting
      [CreateOfferOp None, SetCallbackOp OnTrack (Some 3), HandleAnswerOp answer0 1] connection0 = True"
    by (simp add: commits_eq accepting_def)
  from no yes
    canAddCandidates_after_commit [of "\<lparr>handshakeServers = [''stun:stun.example.org'']\<rparr>"
      refusing "[CreateAnswerOp offer0, HandleAnswerOp answer0 1]"]
    canAddCandidates_after_commit [of "\<lparr>handshakeServers = [''stun:stun.example.org'']\<rparr>"
      accepting "[CreateOfferOp None, SetCallbackOp OnTrack (Some 3), HandleAnswerOp answer0 1]"]
  show ?thesis
    by (simp add: connection0_def)
qed

section \<open>handleAnswer\<close>

text \<open>
  C4, as the code has it. \<open>handleAnswer\<close> makes one host call, the commit of the answer
  as the remote description, and resolves exactly when the engine accepts it. When it
  resolves, the answer is the remote description and the negotiation handler is
  registered if no handler was, the handler already there being kept otherwise. When
  the engine rejects the answer the rejection is the result and neither the remote
  description nor the registered handler changes. So after two calls on a connector
  without a handler, the first of which resolved, the first handler is the one
  registered and the one a negotiation-needed event invokes, whatever the second call
  did.
\<close>

theorem handleAnswer_first_handler:
  "(handleAnswer E answer h c = (r, c') \<longrightarrow>
      calls c' = calls c @ [SetRemoteDescription answer]
      \<and> (r = Inr ()) = (rejectRemote E answer c = None)
      \<and> (r = Inr () \<longrightarrow> remoteDescription c' = Some answer
            \<and> onnegotiationneeded c' =
                (case onnegotiationneeded c of None \<Rightarrow> Some h | Some h0 \<Rightarrow> Some h0))
      \<and> (\<forall>e. r = Inl e \<longrightarrow> rejectRemote E answer c = Some e
            \<and> remoteDescription c' = remoteDescription c
            \<and> onnegotiationneeded c' = onnegotiationneeded c))
   \<and> (onnegotiationneeded c = None \<and> handleAnswer E answer1 h1 c = (Inr (), c1)
        \<and> handleAnswer E answer2 h2 c1 = (r2, c2) \<longrightarrow>
      onnegotiationneeded c1 = Some h1 \<and> onnegotiationneeded c2 = Some h1
      \<and> fire_negotiationneeded c2 = [h1])"
  by (auto simp: handleAnswer_def host_defs fire_negotiationneeded_def
        split: option.splits if_splits)

text \<open>Two accepted calls with the handlers 1 and 2 on a fresh connector.\<close>

theorem handleAnswer_first_handler_witness:
  "onnegotiationneeded (snd (handleAnswer accepting answer0 2
       (snd (handleAnswer accepting answer0 1 connection0)))) = Some 1
   \<and> fire_negotiationneeded (snd (handleAnswer accepting answer0 2
       (snd (handleAnswer accepting answer0 1 connection0)))) = [1]
   \<and> remoteDescription (snd (handleAnswer accepting answer0 1 connection0)) = Some answer0"
proof -
  let ?c1 = "snd (handleAnswer accepting answer0 1 connection0)"
  let ?c2 = "snd (handleAnswer accepting answer0 2 ?c1)"
  have first: "handleAnswer accepting answer0 1 connection0 = (Inr (), ?c1)"
    by (simp add: handleAnswer_def host_defs fixture_defs)
  obtain r2 where second: "handleAnswer accepting answer0 2 ?c1 = (r2, ?c2)"
    by (cases "handleAnswer accepting answer0 2 ?c1") simp
  have fresh: "onnegotiationneeded connection0 = None"
    by (simp add: fixture_defs)
  from handleAnswer_first_handler [of accepting answer0 1 connection0 "Inr ()" ?c1
      answer0 1 ?c1 answer0 2 r2 ?c2] first second fresh
  show ?thesis by simp
qed

text \<open>
  The first call is given an answer the engine rejects: it registers nothing, and the
  second call's handler is the one registered and invoked.
\<close>

theorem handleAnswer_rejected_first_call:
  "fst (handleAnswer strict malformed 1 connection0) = Inl (DOMException ''InvalidAccessError'')
   \<and> fst (handleAnswer strict answer0 2 (snd (handleAnswer strict malformed 1 connection0))) = Inr ()
   \<and> onnegotiationneeded (snd (handleAnswer strict answer0 2
        (snd (handleAnswer strict malformed 1 connection0)))) = Some 2
   \<and> fire_negotiationneeded (snd (handleAnswer strict answer0 2
        (snd (handleAnswer strict malformed 1 connection0)))) = [2]"
  by (simp add: handleAnswer_def host_defs fixture_defs strict_def malformed_def
        fire_negotiationneeded_def)

section \<open>replaceTrack\<close>

text \<open>
  C5. When the track swap on the sender resolves, \<open>replaceTrack\<close> resolves, and every
  transceiver of the connection whose sender is that sender has the direction
  \<open>sendrecv\<close>, whatever its direction was; the transceivers are the same in number and
  order, keep their senders, and those of other senders are untouched. When the swap
  is rejected the rejection is the result and no transceiver changes. The swap is what
  decides: \<open>replaceTrack\<close> resolves whenever the engine accepts it.
\<close>

theorem replaceTrack_sendrecv:
  "(replaceTrack E track rtcSender c = (Inr (), c') \<longrightarrow>
      rejectReplace E rtcSender track c = None
      \<and> calls c' = calls c @ [ReplaceTrack rtcSender track, GetTransceivers]
      \<and> length (transceivers c') = length (transceivers c)
      \<and> (\<forall>tr \<in> set (transceivers c'). tr_sender tr = rtcSender \<longrightarrow> direction tr = sendrecv)
      \<and> (\<forall>i < length (transceivers c).
            tr_sender (transceivers c' ! i) = tr_sender (transceivers c ! i)
            \<and> (tr_sender (transceivers c ! i) = rtcSender \<longrightarrow>
                 direction (transceivers c' ! i) = sendrecv)
            \<and> (tr_sender (transceivers c ! i) \<noteq> rtcSender \<longrightarrow>
                 transceivers c' ! i = transceivers c ! i)))
   \<and> (replaceTrack E track rtcSender c = (Inl e, c') \<longrightarrow>
      rejectReplace E rtcSender track c = Some e
      \<and> calls c' = calls c @ [ReplaceTrack rtcSender track]
      \<and> transceivers c' = transceivers c)
   \<and> (rejectReplace E rtcSender track c = None \<longrightarrow>
      fst (replaceTrack E track rtcSender c) = Inr ())"
proof (intro conjI impI)
  assume run: "replaceTrack E track rtcSender c = (Inr (), c')"
  note trs = replaceTrack_resolved(3) [OF run]
  show "rejectReplace E rtcSender track c = None"
    by (rule replaceTrack_resolved(1) [OF run])
  show "calls c' = calls c @ [ReplaceTrack rtcSender track, GetTransceivers]"
    by (rule replaceTrack_resolved(2) [OF run])
  show "length (transceivers c') = length (transceivers c)"
    by (simp add: trs)
  show "\<forall>tr \<in> set (transceivers c'). tr_sender tr = rtcSender \<longrightarrow> direction tr = sendrecv"
    unfolding trs by (rule owners_sendrecv)
  show "\<forall>i < length (transceivers c).
            tr_sender (transceivers c' ! i) = tr_sender (transceivers c ! i)
            \<and> (tr_sender (transceivers c ! i) = rtcSender \<longrightarrow>
                 direction (transceivers c' ! i) = sendrecv)
            \<and> (tr_sender (transceivers c ! i) \<noteq> rtcSender \<longrightarrow>
                 transceivers c' ! i = transceivers c ! i)"
    by (simp add: trs)
next
  assume run: "replaceTrack E track rtcSender c = (Inl e, c')"
  from replaceTrack_rejected [OF run]
  show "rejectReplace E rtcSender track c = Some e"
    and "calls c' = calls c @ [ReplaceTrack rtcSender track]"
    and "transceivers c' = transceivers c"
    by simp_all
next
  assume "rejectReplace E rtcSender track c = None"
  then show "fst (replaceTrack E track rtcSender c) = Inr ()"
    by (rule replaceTrack_accepts)
qed

text \<open>
  Sender 1 owns a send-only and a receive-only transceiver: both become \<open>sendrecv\<close>,
  and sender 2's transceiver stays receive-only.
\<close>

theorem replaceTrack_sendrecv_witness:
  "replaceTrack accepting 11 1 connection1 =
     (Inr (), connection1\<lparr>transceivers :=
        [\<lparr>tr_sender = 1, tr_track = Some 11, direction = sendrecv\<rparr>,
         \<lparr>tr_sender = 2, tr_track = None, direction = recvonly\<rparr>,
         \<lparr>tr_sender = 1, tr_track = Some 11, direction = sendrecv\<rparr>],
        calls := [ReplaceTrack 1 11, GetTransceivers]\<rparr>)"
proof -
  let ?c = "connection1\<lparr>transceivers :=
        [\<lparr>tr_sender = 1, tr_track = Some 11, direction = sendrecv\<rparr>,
         \<lparr>tr_sender = 2, tr_track = None, direction = recvonly\<rparr>,
         \<lparr>tr_sender = 1, tr_track = Some 11, direction = sendrecv\<rparr>],
        calls := [ReplaceTrack 1 11, GetTransceivers]\<rparr>"
  have snd: "snd (replaceTrack accepting 11 1 connection1) = ?c"
    by (simp add: replaceTrack_def host_defs fixture_defs connection1_def)
  have "rejectReplace accepting 1 11 connection1 = None"
    by (simp add: accepting_def)
  with replaceTrack_sendrecv [of accepting 11 1 connection1 ?c undefined]
  have "fst (replaceTrack accepting 11 1 connection1) = Inr ()" by blast
  with snd show ?thesis
    by (simp add: prod_eq_iff)
qed

section \<open>setEncodingParameters\<close>

text \<open>
  C6. \<open>setEncodingParameters\<close> never throws and never leaves a
  rejected promise behind. It first reads the sender's parameters from the host. When
  there are none, that read is its only host call: nothing is committed and the
  connection is otherwise unchanged. When there are parameters, it makes one more host
  call, the commit of the same parameters in which every encoding layer has the given
  \<open>scaleResolutionDownBy\<close>, \<open>maxFramerate\<close> and \<open>maxBitrate\<close> and the converted
  priority, the number of layers and their other fields being kept; whether the engine
  accepts or rejects the commit, the promise left behind is fulfilled.
\<close>

theorem setEncodingParameters_best_effort:
  assumes run: "setEncodingParameters E rtcSender scaleDown framerate bitrate prio c =
      (completion, pending, c')"
  shows "completion = Inr ()
       \<and> (\<forall>e. pending \<noteq> Some (Inl e))
       \<and> (parametersOf E rtcSender c = None \<longrightarrow>
            pending = None \<and> calls c' = calls c @ [GetParameters rtcSender]
            \<and> c' = logged (GetParameters rtcSender) c)
       \<and> (\<forall>ps. parametersOf E rtcSender c = Some ps \<longrightarrow>
            pending = Some (Inr ())
            \<and> (\<exists>ps'. calls c' = calls c @ [GetParameters rtcSender, SetParameters rtcSender ps']
                  \<and> transactionId ps' = transactionId ps
                  \<and> length (encodings ps') = length (encodings ps)
                  \<and> map active (encodings ps') = map active (encodings ps)
                  \<and> (\<forall>enc \<in> set (encodings ps').
                        scaleResolutionDownBy enc = Some scaleDown
                        \<and> maxFramerate enc = Some framerate
                        \<and> maxBitrate enc = Some bitrate
                        \<and> priority enc = Some (convertPriority prio))))"
proof (cases "parametersOf E rtcSender c")
  case None
  from run have "(Inr (), None, logged (GetParameters rtcSender) c) = (completion, pending, c')"
    by (simp only: setEncodingParameters_absent [OF None])
  then have "completion = Inr ()" "pending = None" "c' = logged (GetParameters rtcSender) c"
    by auto
  with None show ?thesis by (simp add: logged_def)
next
  case (Some ps)
  let ?ps' = "ps\<lparr>encodings := map (\<lambda>encoding. encoding
                        \<lparr>scaleResolutionDownBy := Some scaleDown,
                         maxFramerate := Some framerate,
                         maxBitrate := Some bitrate,
                         priority := Some (convertPriority prio)\<rparr>) (encodings ps)\<rparr>"
  from run have "(Inr (), Some (Inr ()),
      logged (SetParameters rtcSender ?ps') (logged (GetParameters rtcSender) c)) =
      (completion, pending, c')"
    by (simp only: setEncodingParameters_present [OF Some])
  then have res: "completion = Inr ()" "pending = Some (Inr ())"
    and c': "c' = logged (SetParameters rtcSender ?ps') (logged (GetParameters rtcSender) c)"
    by auto
  have log: "calls c' = calls c @ [GetParameters rtcSender, SetParameters rtcSender ?ps']"
    by (simp add: c' logged_def)
  have keep: "transactionId ?ps' = transactionId ps"
    "length (encodings ?ps') = length (encodings ps)"
    "map active (encodings ?ps') = map active (encodings ps)"
    by (simp_all add: layers_active)
  have uniform: "\<forall>enc \<in> set (encodings ?ps').
      scaleResolutionDownBy enc = Some scaleDown \<and> maxFramerate enc = Some framerate
      \<and> maxBitrate enc = Some bitrate \<and> priority enc = Some (convertPriority prio)"
    using layers_uniform [where encs = "encodings ps" and p = "convertPriority prio"]
    by simp
  from log keep uniform have "\<exists>ps'. calls c' = calls c @ [GetParameters rtcSender, SetParameters rtcSender ps']
                  \<and> transactionId ps' = transactionId ps
                  \<and> length (encodings ps') = length (encodings ps)
                  \<and> map active (encodings ps') = map active (encodings ps)
                  \<and> (\<forall>enc \<in> set (encodings ps').
                        scaleResolutionDownBy enc = Some scaleDown
                        \<and> maxFramerate enc = Some framerate
                        \<and> maxBitrate enc = Some bitrate
                        \<and> priority enc = Some (convertPriority prio))"
    by blast
  with res Some show ?thesis by simp
qed

text \<open>
  A sender with two layers on an engine that rejects the commit, and a sender without
  parameters.
\<close>

theorem setEncodingParameters_best_effort_witness:
  "setEncodingParameters refusing 1 2 30 500000 High connection0 =
     (Inr (), Some (Inr ()),
      connection0\<lparr>calls := [GetParameters 1, SetParameters 1
        \<lparr>transactionId = ''tx1'',
         encodings =
           [\<lparr>active = True, scaleResolutionDownBy = Some 2, maxFramerate = Some 30,
              maxBitrate = Some 500000, priority = Some high\<rparr>,
            \<lparr>active = False, scaleResolutionDownBy = Some 2, maxFramerate = Some 30,
              maxBitrate = Some 500000, priority = Some high\<rparr>]\<rparr>]\<rparr>)
   \<and> setEncodingParameters accepting 2 2 30 500000 High connection0 =
     (Inr (), None, connection0\<lparr>calls := [GetParameters 2]\<rparr>)"
proof -
  let ?c1 = "connection0\<lparr>calls := [GetParameters 1, SetParameters 1
        \<lparr>transactionId = ''tx1'',
         encodings =
           [\<lparr>active = True, scaleResolutionDownBy = Some 2, maxFramerate = Some 30,
              maxBitrate = Some 500000, priority = Some high\<rparr>,
            \<lparr>active = False, scaleResolutionDownBy = Some 2, maxFramerate = Some 30,
              maxBitrate = Some 500000, priority = Some high\<rparr>]\<rparr>]\<rparr>"
  let ?c2 = "connection0\<lparr>calls := [GetParameters 2]\<rparr>"
  obtain d1 p1 where one: "setEncodingParameters refusing 1 2 30 500000 High connection0 = (d1, p1, ?c1)"
    by (simp add: setEncodingParameters_def host_defs fixture_defs parameters0_def)
  obtain d2 p2 where two: "setEncodingParameters accepting 2 2 30 500000 High connection0 = (d2, p2, ?c2)"
    by (simp add: setEncodingParameters_def host_defs fixture_defs)
  have "parametersOf refusing 1 connection0 = Some parameters0"
    by (simp add: refusing_def)
  with setEncodingParameters_best_effort [OF one]
  have r1: "d1 = Inr ()" "p1 = Some (Inr ())" by blast+
  have "parametersOf accepting 2 connection0 = None"
    by (simp add: accepting_def)
  with setEncodingParameters_best_effort [OF two]
  have r2: "d2 = Inr ()" "p2 = None" by blast+
  from one two r1 r2 show ?thesis by simp
qed

section \<open>createOffer\<close>

text \<open>
  C7. Every call of \<open>createOffer\<close> starts with the host's offer generation, and the
  options it passes request an ICE restart exactly when the caller's options are given
  and their \<open>handshakeRestart\<close> flag is true (otherwise the field is absent). When
  \<open>createOffer\<close> returns an offer, it is the offer the host generated, the commit of
  that offer as the local description is the next and last host call, and it is the
  local description. When generation fails nothing is committed; when generation and
  commit are accepted the offer is returned.
\<close>

theorem createOffer_restart_then_commit:
  assumes run: "createOffer E options c = (r, c')"
  shows "(\<exists>opts rest. calls c' = calls c @ CreateOffer opts # rest
            \<and> (iceRestart opts = Some True) =
                (\<exists>given. options = Some given \<and> handshakeRestart given = Some True)
            \<and> (iceRestart opts = Some True \<or> iceRestart opts = None)
            \<and> (\<forall>offer. r = Inr offer \<longrightarrow>
                  rest = [SetLocalDescription offer] \<and> localDescription c' = Some offer
                  \<and> offerOf E opts c = Inr offer)
            \<and> (\<forall>e. offerOf E opts c = Inl e \<longrightarrow>
                  r = Inl e \<and> rest = [] \<and> localDescription c' = localDescription c)
            \<and> (\<forall>offer. offerOf E opts c = Inr offer
                    \<and> rejectLocal E offer (logged (CreateOffer opts) c) = None
                  \<longrightarrow> r = Inr offer))"
proof -
  let ?restart = "case options of None \<Rightarrow> False | Some opts \<Rightarrow> handshakeRestart opts = Some True"
  let ?opts = "if ?restart then \<lparr>iceRestart = Some True\<rparr> else \<lparr>iceRestart = None\<rparr>"
  obtain rest where log: "calls c' = calls c @ CreateOffer ?opts # rest"
    using run
    by (auto simp: createOffer_def host_defs Let_def split: sum.splits option.splits if_splits)
  have flag: "(iceRestart ?opts = Some True) =
      (\<exists>given. options = Some given \<and> handshakeRestart given = Some True)"
    by (cases options) auto
  have shape: "iceRestart ?opts = Some True \<or> iceRestart ?opts = None"
    by simp
  have ok: "\<forall>offer. r = Inr offer \<longrightarrow>
      rest = [SetLocalDescription offer] \<and> localDescription c' = Some offer
      \<and> offerOf E ?opts c = Inr offer"
    using run log
    by (auto simp: createOffer_def host_defs Let_def split: sum.splits option.splits if_splits)
  have bad: "\<forall>e. offerOf E ?opts c = Inl e \<longrightarrow>
      r = Inl e \<and> rest = [] \<and> localDescription c' = localDescription c"
    using run log
    by (auto simp: createOffer_def host_defs Let_def split: sum.splits option.splits if_splits)
  have total: "\<forall>offer. offerOf E ?opts c = Inr offer
        \<and> rejectLocal E offer (logged (CreateOffer ?opts) c) = None \<longrightarrow> r = Inr offer"
    using run
    by (auto simp: createOffer_def host_defs Let_def split: sum.splits option.splits if_splits)
  from log flag shape ok bad total show ?thesis by blast
qed

text \<open>A restart is asked for on a fresh connector, with an engine that accepts.\<close>

theorem createOffer_restart_then_commit_witness:
  "createOffer accepting (Some \<lparr>handshakeRestart = Some True\<rparr>) connection0 =
     (Inr (Description ''offer'' ''v=0 restart''),
      connection0\<lparr>localDescription := Some (Description ''offer'' ''v=0 restart''),
        calls := [CreateOffer \<lparr>iceRestart = Some True\<rparr>,
                  SetLocalDescription (Description ''offer'' ''v=0 restart'')]\<rparr>)"
proof -
  let ?c2 = "connection0\<lparr>localDescription := Some (Description ''offer'' ''v=0 restart''),
        calls := [CreateOffer \<lparr>iceRestart = Some True\<rparr>,
                  SetLocalDescription (Description ''offer'' ''v=0 restart'')]\<rparr>"
  obtain r where run: "createOffer accepting (Some \<lparr>handshakeRestart = Some True\<rparr>) connection0 = (r, ?c2)"
    by (simp add: createOffer_def host_defs fixture_defs)
  from createOffer_restart_then_commit [OF run] obtain opts where
    flag: "(iceRestart opts = Some True) =
       (\<exists>given. Some \<lparr>handshakeRestart = Some True\<rparr> = Some given \<and> handshakeRestart given = Some True)"
    and total: "\<forall>offer. offerOf accepting opts connection0 = Inr offer
        \<and> rejectLocal accepting offer (logged (CreateOffer opts) connection0) = None
        \<longrightarrow> r = Inr offer"
    by blast
  from flag have "iceRestart opts = Some True" by simp
  then have "offerOf accepting opts connection0 = Inr (Description ''offer'' ''v=0 restart'')"
    by (simp add: accepting_def)
  moreover have "rejectLocal accepting (Description ''offer'' ''v=0 restart'')
      (logged (CreateOffer opts) connection0) = None"
    by (simp add: accepting_def)
  ultimately have "r = Inr (Description ''offer'' ''v=0 restart'')"
    using total by blast
  with run show ?thesis by simp
qed

section \<open>Callback slots\<close>

text \<open>
  C9. For each of the six slots of the peer connection adapter and the three of the
  data channel adapter: an event fired right after the slot was set invokes the
  callback just set, whatever was registered before, and nothing if the slot was set to
  \<open>null\<close>; over any history of settings and events, either adapter invokes exactly
  what a table with one replaceable entry per slot would; and after a slot is set to
  \<open>null\<close>, no event of that slot invokes anything for as long as the slot is not set
  to a callback again. The \<open>onDataChannel\<close> setter installs its wrapper for a callback
  and nothing for \<open>null\<close>, and the wrapper hands the callback the wrapped channel.
\<close>

theorem callback_slots:
  "pc_fire s ev (pc_set s cb c) = (case cb of None \<Rightarrow> [] | Some f \<Rightarrow> [(s, f, pc_argument s ev)])
   \<and> dc_fire t ev (dc_set t cb d) = (case cb of None \<Rightarrow> [] | Some f \<Rightarrow> [(t, f, HostEvent ev)])
   \<and> ondatachannel (set_onDataChannel cb c) = map_option Wrapper cb
   \<and> invocations pc_set pc_fire acts c = expected pc_argument acts (pc_registered c)
   \<and> invocations dc_set dc_fire dacts d = expected dc_argument dacts (dc_registered d)
   \<and> ((\<forall>f. SetSlot s (Some f) \<notin> set acts) \<longrightarrow>
        filter (\<lambda>i. fst i = s) (invocations pc_set pc_fire (SetSlot s None # acts) c) = [])
   \<and> ((\<forall>f. SetSlot t (Some f) \<notin> set dacts) \<longrightarrow>
        filter (\<lambda>i. fst i = t) (invocations dc_set dc_fire (SetSlot t None # dacts) d) = [])"
proof (intro conjI impI)
  have pc: "\<And>acts c. invocations pc_set pc_fire acts c = expected pc_argument acts (pc_registered c)"
    by (rule invocations_expected [OF pc_fire_registered pc_set_registered])
  have dc: "\<And>acts d. invocations dc_set dc_fire acts d = expected dc_argument acts (dc_registered d)"
    by (rule invocations_expected [OF dc_fire_registered dc_set_registered])
  show "pc_fire s ev (pc_set s cb c) = (case cb of None \<Rightarrow> [] | Some f \<Rightarrow> [(s, f, pc_argument s ev)])"
    by (simp add: pc_fire_registered pc_set_registered)
  show "dc_fire t ev (dc_set t cb d) = (case cb of None \<Rightarrow> [] | Some f \<Rightarrow> [(t, f, HostEvent ev)])"
    by (simp add: dc_fire_registered dc_set_registered dc_argument_def split: option.splits)
  show "ondatachannel (set_onDataChannel cb c) = map_option Wrapper cb"
    by (cases cb) (simp_all add: set_onDataChannel_def)
  show "invocations pc_set pc_fire acts c = expected pc_argument acts (pc_registered c)"
    by (rule pc)
  show "invocations dc_set dc_fire dacts d = expected dc_argument dacts (dc_registered d)"
    by (rule dc)
  {
    assume quiet: "\<forall>f. SetSlot s (Some f) \<notin> set acts"
    have "((pc_registered c)(s := None)) s = None" by simp
    from expected_silent [where registered = "(pc_registered c)(s := None)" and s = s
        and acts = acts and arg = pc_argument, OF this quiet]
    show "filter (\<lambda>i. fst i = s) (invocations pc_set pc_fire (SetSlot s None # acts) c) = []"
      by (simp only: pc expected.simps)
  }
  {
    assume quiet: "\<forall>f. SetSlot t (Some f) \<notin> set dacts"
    have "((dc_registered d)(t := None)) t = None" by simp
    from expected_silent [where registered = "(dc_registered d)(t := None)" and s = t
        and acts = dacts and arg = dc_argument, OF this quiet]
    show "filter (\<lambda>i. fst i = t) (invocations dc_set dc_fire (SetSlot t None # dacts) d) = []"
      by (simp only: dc expected.simps)
  }
qed

text \<open>
  Histories on a fresh connector and a fresh channel: a callback replaced, then
  deregistered, with events in between.
\<close>

theorem callback_slots_witness:
  "invocations pc_set pc_fire
     [SetSlot OnDataChannel (Some 1), FireEvent OnDataChannel 7,
      SetSlot OnDataChannel (Some 2), FireEvent OnDataChannel 8,
      SetSlot OnDataChannel None, FireEvent OnDataChannel 9, FireEvent OnTrack 10] connection0 =
     [(OnDataChannel, 1, ChannelEvent (Connector 7)), (OnDataChannel, 2, ChannelEvent (Connector 8))]
   \<and> invocations dc_set dc_fire
     [SetSlot OnMessage (Some 1), SetSlot OnClose (Some 2), FireEvent OnMessage 100,
      SetSlot OnMessage None, FireEvent OnMessage 101, FireEvent OnClose 102] channel0 =
     [(OnMessage, 1, HostEvent 100), (OnClose, 2, HostEvent 102)]
   \<and> filter (\<lambda>i. fst i = OnDataChannel) (invocations pc_set pc_fire
        [SetSlot OnDataChannel None, FireEvent OnDataChannel 9, SetSlot OnTrack (Some 3),
         FireEvent OnTrack 10, FireEvent OnDataChannel 11]
        (set_onDataChannel (Some 2) connection0)) = []
   \<and> filter (\<lambda>i. fst i = OnMessage) (invocations dc_set dc_fire
        [SetSlot OnMessage None, FireEvent OnMessage 101, FireEvent OnClose 102]
        (set_onClose (Some 2) (set_onMessage (Some 1) channel0))) = []"
proof -
  let ?acts = "[FireEvent OnDataChannel 9, SetSlot OnTrack (Some 3),
         FireEvent OnTrack 10, FireEvent OnDataChannel 11]"
  let ?dacts = "[FireEvent OnMessage 101, FireEvent OnClose 102]"
  have quiet: "\<forall>f. SetSlot OnDataChannel (Some f) \<notin> set ?acts"
    "\<forall>f. SetSlot OnMessage (Some f) \<notin> set ?dacts"
    by simp_all
  note silent = callback_slots [where s = OnDataChannel and acts = ?acts
      and c = "set_onDataChannel (Some 2) connection0" and t = OnMessage and dacts = ?dacts
      and d = "set_onClose (Some 2) (set_onMessage (Some 1) channel0)"]
  from silent quiet have third: "filter (\<lambda>i. fst i = OnDataChannel) (invocations pc_set pc_fire
        (SetSlot OnDataChannel None # ?acts) (set_onDataChannel (Some 2) connection0)) = []"
    by blast
  from silent quiet have fourth: "filter (\<lambda>i. fst i = OnMessage) (invocations dc_set dc_fire
        (SetSlot OnMessage None # ?dacts)
        (set_onClose (Some 2) (set_onMessage (Some 1) channel0))) = []"
    by blast
  have first: "invocations pc_set pc_fire
     [SetSlot OnDataChannel (Some 1), FireEvent OnDataChannel 7,
      SetSlot OnDataChannel (Some 2), FireEvent OnDataChannel 8,
      SetSlot OnDataChannel None, FireEvent OnDataChannel 9, FireEvent OnTrack 10] connection0 =
     [(OnDataChannel, 1, ChannelEvent (Connector 7)), (OnDataChannel, 2, ChannelEvent (Connector 8))]"
    by (simp add: setter_defs plain_def createDataChannel_def fixture_defs)
  have second: "invocations dc_set dc_fire
     [SetSlot OnMessage (Some 1), SetSlot OnClose (Some 2), FireEvent OnMessage 100,
      SetSlot OnMessage None, FireEvent OnMessage 101, FireEvent OnClose 102] channel0 =
     [(OnMessage, 1, HostEvent 100), (OnClose, 2, HostEvent 102)]"
    by (simp add: setter_defs plain_def channel0_def)
  from first second third fourth show ?thesis by blast
qed

end
